theory Spec2Isabelle
  imports Complex_Main
begin

section \<open>Toolkit widgets\<close>

text \<open>
  Both GUI modules are glue over the Qt widget toolkit. The widget classes are not part
  of the sources; the few operations the handlers use are modelled here by their
  documented contract.

  A finite Python float that the GUI only stores, compares or displays is modelled by
  the \<^typ>\<open>real\<close> number it denotes. Where the sources compute with floats, the IEEE
  binary64 arithmetic of Python and numpy is a parameter: its operations and the type of
  its values are not fixed by the model.
\<close>

datatype py_error = KeyError | UnboundLocalError | ZeroDivisionError

text \<open>
  Modelled from the spec: the spin-box classes (QSpinBox, QDoubleSpinBox, the scientific
  spin boxes, QSlider) are absent from the sources. The spec names "range clamping" as
  the only arithmetic of the widgets: a numeric input widget has a range and a value,
  \<open>setRange\<close> stores the range and pulls the value into it, \<open>setValue\<close> stores the
  argument clamped into the range and emits \<open>valueChanged\<close> when the stored value
  changed and the widget's signals are not blocked.
\<close>

record 'a spinbox =
  minimum :: 'a
  maximum :: 'a
  spin_value :: 'a
  suffix :: string
  signals_blocked :: bool

definition bound :: "'a::linorder \<Rightarrow> 'a \<Rightarrow> 'a \<Rightarrow> 'a" where
  "bound lo hi v = (if v < lo then lo else if hi < v then hi else v)"

text \<open>The second component tells whether \<open>valueChanged\<close> was emitted.\<close>

definition setRange :: "'a::linorder \<Rightarrow> 'a \<Rightarrow> 'a spinbox \<Rightarrow> 'a spinbox \<times> bool" where
  "setRange lo hi w =
     (let v' = bound lo hi (spin_value w)
      in (w\<lparr>minimum := lo, maximum := hi, spin_value := v'\<rparr>,
          v' \<noteq> spin_value w \<and> \<not> signals_blocked w))"

definition setValue :: "'a::linorder \<Rightarrow> 'a spinbox \<Rightarrow> 'a spinbox \<times> bool" where
  "setValue v w =
     (let v' = bound (minimum w) (maximum w) v
      in (w\<lparr>spin_value := v'\<rparr>, v' \<noteq> spin_value w \<and> \<not> signals_blocked w))"

definition blockSignals :: "bool \<Rightarrow> 'a spinbox \<Rightarrow> 'a spinbox" where
  "blockSignals b w = w\<lparr>signals_blocked := b\<rparr>"

definition setSuffix :: "string \<Rightarrow> 'a spinbox \<Rightarrow> 'a spinbox" where
  "setSuffix u w = w\<lparr>suffix := u\<rparr>"

text \<open>
  A QDoubleSpinBox additionally rounds the argument of \<open>setValue\<close> to its number of
  decimals before clamping it.
\<close>

definition round_decimals :: "nat \<Rightarrow> real \<Rightarrow> real" where
  "round_decimals d v = of_int (round (v * 10 ^ d)) / 10 ^ d"

definition setValue_double :: "nat \<Rightarrow> real \<Rightarrow> real spinbox \<Rightarrow> real spinbox" where
  "setValue_double d v w = fst (setValue (round_decimals d v) w)"

text \<open>A fresh QSpinBox / QDoubleSpinBox: range 0 to 99 (99.99), value 0.\<close>

definition QSpinBox :: "int spinbox" where
  "QSpinBox =
     \<lparr>minimum = 0, maximum = 99, spin_value = 0, suffix = [], signals_blocked = False\<rparr>"

definition QDoubleSpinBox :: "real spinbox" where
  "QDoubleSpinBox =
     \<lparr>minimum = 0, maximum = 9999 / 100, spin_value = 0, suffix = [], signals_blocked = False\<rparr>"


section \<open>Laser scanning GUI (gui/LaserScanningGui.py)\<close>

subsection \<open>Collaborators\<close>

text \<open>
  A Python string object. The interpreter interns the string constants of a module that
  look like identifiers, so a literal such as \<open>'running'\<close> denotes the one interned
  object with these characters. A string built at run time (joined, formatted, read from
  a file) is a fresh object: it can be equal to a literal without being identical with
  it. \<open>x is 'lit'\<close> compares identities.
\<close>

datatype py_str = Interned string | Fresh string

fun str_chars :: "py_str \<Rightarrow> string" where
  "str_chars (Interned s) = s"
| "str_chars (Fresh s) = s"

definition is_literal :: "py_str \<Rightarrow> string \<Rightarrow> bool" where
  "is_literal x lit = (x = Interned lit)"

text \<open>
  The attributes and getters of the scanning logic that the GUI reads. The logic layer
  itself lives outside the repository; what its commands do to it is a parameter. The
  three histogram arrays are numpy arrays of floats, of the abstract element type
  \<open>'f\<close>.
\<close>

record 'f scanning_logic =
  getState :: py_str
  get_bins :: int
  get_min_wavelength :: real
  get_max_wavelength :: real
  current_wavelength :: real
  intern_xmin :: real
  intern_xmax :: real
  histogram_axis :: "'f list"
  histogram :: "'f list"
  sumhisto :: "'f list"

text \<open>
  What the GUI is given from outside: the commands of the scanning logic, the path
  lookup of the save logic, and the binary64 arithmetic of the interpreter and of numpy
  (\<open>float64\<close> reads a finite float, the other three are the IEEE operations, which
  also produce infinities and NaN).
\<close>

record 'f collaborators =
  start_scanning :: "'f scanning_logic \<Rightarrow> 'f scanning_logic"
  stop_scanning :: "'f scanning_logic \<Rightarrow> 'f scanning_logic"
  recalculate_histogram_logic ::
    "int \<Rightarrow> real \<Rightarrow> real \<Rightarrow> 'f scanning_logic \<Rightarrow> 'f scanning_logic"
  save_data :: "'f scanning_logic \<Rightarrow> 'f scanning_logic"
  get_path_for_module :: "string \<Rightarrow> string"
  float64 :: "real \<Rightarrow> 'f"
  float_add :: "'f \<Rightarrow> 'f \<Rightarrow> 'f"
  float_sub :: "'f \<Rightarrow> 'f \<Rightarrow> 'f"
  float_div :: "'f \<Rightarrow> 'f \<Rightarrow> 'f"

datatype exporter = SVGExporter | ImageExporter

text \<open>
  Every method call on a collaborator and every file export is recorded, oldest first.
\<close>

datatype call =
    Start_scanning
  | Stop_scanning
  | Recalculate_histogram int real real
  | Save_data
  | Get_path_for_module string
  | Export exporter string

subsection \<open>View state\<close>

record 'f curve =
  xdata :: "'f list"
  ydata :: "'f list"

text \<open>
  A label text is either a literal or a Python format template applied to a number;
  the rendering of the number is left uninterpreted.
\<close>

datatype label_text = Literal string | Formatted string real

record 'f laser_gui =
  start_stop_button :: string
  bins_display :: "int spinbox"
  min_wavelength_display :: "real spinbox"
  max_wavelength_display :: "real spinbox"
  wavelength_label :: label_text
  auto_min_label :: label_text
  auto_max_label :: label_text
  curve1 :: "'f curve"
  curve2 :: "'f curve"
  curve3 :: "'f curve"
  save_PNG :: bool

record 'f world =
  gui :: "'f laser_gui"
  logic :: "'f scanning_logic"
  calls :: "call list"

subsection \<open>Activation\<close>

definition initUI :: "'f scanning_logic \<Rightarrow> 'f laser_gui" where
  "initUI lg =
     \<lparr>start_stop_button = ''Start'',
      bins_display = fst (setValue (get_bins lg) (fst (setRange 1 10000 QSpinBox))),
      min_wavelength_display =
        setValue_double 6 (get_min_wavelength lg) (fst (setRange 1 1000000 QDoubleSpinBox)),
      max_wavelength_display =
        setValue_double 6 (get_max_wavelength lg) (fst (setRange 1 10000 QDoubleSpinBox)),
      wavelength_label = Literal ''xxx'',
      auto_min_label = Literal ''Minimum: xxx.xxxxxx (nm)   '',
      auto_max_label = Literal ''Maximum: xxx.xxxxxx (nm)   '',
      curve1 = \<lparr>xdata = [], ydata = []\<rparr>,
      curve2 = \<lparr>xdata = [], ydata = []\<rparr>,
      curve3 = \<lparr>xdata = [], ydata = []\<rparr>,
      save_PNG = True\<rparr>"

definition activate :: "'f scanning_logic \<Rightarrow> 'f world" where
  "activate lg = \<lparr>gui = initUI lg, logic = lg, calls = []\<rparr>"

subsection \<open>Handlers\<close>

text \<open>
  \<open>x_axis_hz\<close> is the expression
  \<open>3.0e17/(x_axis) - 6.0e17/(get_max_wavelength() + get_min_wavelength())\<close> of
  \<open>updateData\<close>, elementwise over the numpy array, in the float arithmetic given.
  The division of the two Python floats raises ZeroDivisionError when the sum of the two
  bounds is zero, which for finite floats is the case exactly when the bounds are
  opposite numbers; numpy's division by an array element does not raise.

  The state is compared with \<open>is 'running'\<close>, by identity.
\<close>

definition x_axis_hz :: "'f collaborators \<Rightarrow> 'f list \<Rightarrow> real \<Rightarrow> real \<Rightarrow> 'f list" where
  "x_axis_hz c x_axis xmax xmin =
     map (\<lambda>x. float_sub c (float_div c (float64 c (3 * 10 ^ 17)) x)
                 (float_div c (float64 c (6 * 10 ^ 17))
                    (float_add c (float64 c xmax) (float64 c xmin))))
         x_axis"

definition updateData :: "'f collaborators \<Rightarrow> 'f world \<Rightarrow> 'f world \<times> py_error option" where
  "updateData c w =
     (let lg = logic w;
          g1 = (gui w)\<lparr>wavelength_label := Formatted ''{0:,.6f} nm'' (current_wavelength lg),
                       auto_min_label := Formatted ''Minimum: {0:3.6f} (nm)   '' (intern_xmin lg),
                       auto_max_label := Formatted ''Maximum: {0:3.6f} (nm)   '' (intern_xmax lg)\<rparr>;
          x_axis = histogram_axis lg
      in if get_max_wavelength lg + get_min_wavelength lg = 0
         then (w\<lparr>gui := g1\<rparr>, Some ZeroDivisionError)
         else
           let hz = x_axis_hz c x_axis (get_max_wavelength lg) (get_min_wavelength lg);
               g2 = g1\<lparr>curve1 := \<lparr>xdata = x_axis, ydata = histogram lg\<rparr>,
                        curve2 := \<lparr>xdata = x_axis, ydata = sumhisto lg\<rparr>,
                        curve3 := \<lparr>xdata = hz, ydata = histogram lg\<rparr>\<rparr>;
               g3 = g2\<lparr>start_stop_button :=
                          (if is_literal (getState lg) ''running'' then ''Stop'' else ''Start'')\<rparr>
           in (w\<lparr>gui := g3\<rparr>, None))"

definition start_clicked :: "'f collaborators \<Rightarrow> 'f world \<Rightarrow> 'f world" where
  "start_clicked c w =
     (if is_literal (getState (logic w)) ''running''
      then w\<lparr>gui := (gui w)\<lparr>start_stop_button := ''Start''\<rparr>,
             logic := stop_scanning c (logic w),
             calls := calls w @ [Stop_scanning]\<rparr>
      else w\<lparr>gui := (gui w)\<lparr>start_stop_button := ''Stop''\<rparr>,
             logic := start_scanning c (logic w),
             calls := calls w @ [Start_scanning]\<rparr>)"

text \<open>
  The clock read by \<open>time.strftime\<close>, and the format
  \<open>'\\%Y-%m-%d_laser_scan_from_%Hh%Mm%Ss'\<close> (a backslash, then zero-padded fields).
\<close>

record struct_time =
  tm_year :: nat
  tm_mon :: nat
  tm_mday :: nat
  tm_hour :: nat
  tm_min :: nat
  tm_sec :: nat

definition digit :: "nat \<Rightarrow> char" where
  "digit n = ''0123456789'' ! (n mod 10)"

definition pad2 :: "nat \<Rightarrow> string" where
  "pad2 n = [digit (n div 10), digit n]"

definition pad4 :: "nat \<Rightarrow> string" where
  "pad4 n = [digit (n div 1000), digit (n div 100), digit (n div 10), digit n]"

definition strftime_laser_scan :: "struct_time \<Rightarrow> string" where
  "strftime_laser_scan t =
     [CHR 0x5C] @ pad4 (tm_year t) @ ''-'' @ pad2 (tm_mon t) @ ''-'' @ pad2 (tm_mday t)
       @ ''_laser_scan_from_'' @ pad2 (tm_hour t) @ ''h'' @ pad2 (tm_min t) @ ''m''
       @ pad2 (tm_sec t) @ ''s''"

definition save_clicked :: "'f collaborators \<Rightarrow> struct_time \<Rightarrow> 'f world \<Rightarrow> 'f world" where
  "save_clicked c now w =
     (let filepath = get_path_for_module c ''LaserScanning'';
          w0 = w\<lparr>calls := calls w @ [Get_path_for_module ''LaserScanning'']\<rparr>;
          filename = filepath @ strftime_laser_scan now;
          w1 = w0\<lparr>calls := calls w0 @ [Export SVGExporter (filename @ ''.svg'')]\<rparr>;
          w2 = (if save_PNG (gui w1)
                then w1\<lparr>calls := calls w1 @ [Export ImageExporter (filename @ ''.png'')]\<rparr>
                else w1)
      in w2\<lparr>logic := save_data c (logic w2), calls := calls w2 @ [Save_data]\<rparr>)"

definition recalculate_histogram :: "'f collaborators \<Rightarrow> 'f world \<Rightarrow> 'f world" where
  "recalculate_histogram c w =
     (let bins = spin_value (bins_display (gui w));
          xmin = spin_value (min_wavelength_display (gui w));
          xmax = spin_value (max_wavelength_display (gui w))
      in w\<lparr>logic := recalculate_histogram_logic c bins xmin xmax (logic w),
            calls := calls w @ [Recalculate_histogram bins xmin xmax]\<rparr>)"

text \<open>
  Only \<open>editingFinished\<close> of the two range inputs is connected to
  \<open>recalculate_histogram\<close>; a programmatic \<open>setValue\<close> emits \<open>valueChanged\<close>, which
  has no slot here.
\<close>

definition set_auto_range :: "'f collaborators \<Rightarrow> 'f world \<Rightarrow> 'f world" where
  "set_auto_range c w =
     (let g1 = (gui w)\<lparr>min_wavelength_display :=
                  setValue_double 6 (intern_xmin (logic w)) (min_wavelength_display (gui w))\<rparr>;
          g2 = g1\<lparr>max_wavelength_display :=
                  setValue_double 6 (intern_xmax (logic w)) (max_wavelength_display g1)\<rparr>
      in recalculate_histogram c (w\<lparr>gui := g2\<rparr>))"

text \<open>
  \<open>show\<close> and \<open>_update_plot_views\<close> only touch window geometry, which is not part of
  the modelled view state.
\<close>

definition show_window :: "'f world \<Rightarrow> 'f world" where
  "show_window w = w"

definition update_plot_views :: "'f world \<Rightarrow> 'f world" where
  "update_plot_views w = w"

subsection \<open>The module's interface as events\<close>

text \<open>
  Everything that can happen to an activated module: one of its slots runs, it is
  activated again, the user edits the three inputs (and \<open>editingFinished\<close> runs the
  recalculation), or the logic layer changes by itself.
\<close>

datatype 'f event =
    Activate
  | Show
  | UpdatePlotViews
  | DataUpdated
  | StartClicked
  | SaveClicked struct_time
  | EditingFinished int real real
  | AutoRangeClicked
  | LogicChanged "'f scanning_logic"

definition user_edit :: "int \<Rightarrow> real \<Rightarrow> real \<Rightarrow> 'f world \<Rightarrow> 'f world" where
  "user_edit b lo hi w =
     w\<lparr>gui := (gui w)\<lparr>bins_display := fst (setValue b (bins_display (gui w))),
                       min_wavelength_display :=
                         setValue_double 6 lo (min_wavelength_display (gui w)),
                       max_wavelength_display :=
                         setValue_double 6 hi (max_wavelength_display (gui w))\<rparr>\<rparr>"

fun step :: "'f collaborators \<Rightarrow> 'f world \<Rightarrow> 'f event \<Rightarrow> 'f world" where
  "step c w Activate = w\<lparr>gui := initUI (logic w)\<rparr>"
| "step c w Show = show_window w"
| "step c w UpdatePlotViews = update_plot_views w"
| "step c w DataUpdated = fst (updateData c w)"
| "step c w StartClicked = start_clicked c w"
| "step c w (SaveClicked now) = save_clicked c now w"
| "step c w (EditingFinished b lo hi) = recalculate_histogram c (user_edit b lo hi w)"
| "step c w AutoRangeClicked = set_auto_range c w"
| "step c w (LogicChanged lg) = w\<lparr>logic := lg\<rparr>"

definition run :: "'f collaborators \<Rightarrow> 'f world \<Rightarrow> 'f event list \<Rightarrow> 'f world" where
  "run c w evs = foldl (step c) w evs"


section \<open>Confocal GUI (gui/confocal/confocalgui2.py)\<close>

subsection \<open>Data of the logic layer\<close>

text \<open>
  The dictionaries handed over by the confocal logic. A dictionary that the GUI iterates
  over is an association list in iteration order; a key that may be absent is an
  \<open>option\<close>. A scan array is one- or two-dimensional.
\<close>

record axis_constraints =
  min_resolution :: int
  max_resolution :: int
  min_value :: real
  max_value :: real
  axis_unit :: string

record settings_dict =
  pixel_clock_frequency :: "real option"
  backscan_speed :: "real option"
  scan_resolution :: "(string \<times> int) list option"
  scan_range :: "(string \<times> real \<times> real) list option"

datatype ndarray = Array1 "real list" | Array2 "real list list"

record scan_frame =
  axes_names :: "string list"
  axes_extent :: "(real \<times> real) list"
  scan :: "ndarray option"
  frame_unit :: string

record confocal_logic =
  scanner_settings :: settings_dict
  scanner_position :: "(string \<times> real) list"
  scan_data :: "scan_frame list"
  scanner_constraints :: "(string \<times> axis_constraints) list"

subsection \<open>View state\<close>

record axis_widgets =
  res_spinbox :: "int spinbox"
  min_spinbox :: "real spinbox"
  max_spinbox :: "real spinbox"
  slider :: "real spinbox"
  pos_spinbox :: "real spinbox"

record optimizer_axis_widgets =
  range_spinbox :: "real spinbox"
  optimizer_res_spinbox :: "int spinbox"

datatype widget =
    Pixel_clock_frequency_scienSpinBox
  | Backscan_speed_scienSpinBox
  | Res_spinbox string
  | Min_spinbox string
  | Max_spinbox string
  | Slider string
  | Pos_spinbox string
  | Range_spinbox string
  | Optimizer_res_spinbox string

record scan_image =
  item_image :: ndarray
  image_extent :: "(real \<times> real) list option"

text \<open>
  The slots that can be connected to the keyboard signal of the main window.
  \<open>on_activate\<close> connects none.
\<close>

datatype slot = Move_scanner_by_keyboard_event

text \<open>
  The dictionaries of generated widgets are maps from the axis name (or from the key
  \<open>'x,y'\<close> of a 2D scan). Of a 2D dock widget the colour bar label (text and unit) is
  kept, of a 1D dock widget the label of the left plot axis. \<open>emitted\<close> lists the
  widgets that emitted \<open>valueChanged\<close>, oldest first.
\<close>

record confocal_gui =
  axes_control_widgets :: "string \<rightharpoonup> axis_widgets"
  optimizer_settings_axes_widgets :: "string \<rightharpoonup> optimizer_axis_widgets"
  pixel_clock_frequency_scienSpinBox :: "real spinbox"
  backscan_speed_scienSpinBox :: "real spinbox"
  scan_2d_images :: "string \<rightharpoonup> scan_image"
  scan_1d_plots :: "string \<rightharpoonup> ndarray"
  scan_2d_dockwidgets :: "string \<rightharpoonup> (string \<times> string) option"
  scan_1d_dockwidgets :: "string \<rightharpoonup> string \<times> string"
  sigKeyboardPressed :: "slot list"
  emitted :: "widget list"

text \<open>
  The GUI together with its logic connector and the method calls made on the logic,
  oldest first. Reading an attribute of the logic is not a call.
\<close>

record confocal_world =
  cgui :: confocal_gui
  scannerlogic :: confocal_logic
  logic_calls :: "string list"

subsection \<open>Loops and signals\<close>

text \<open>A Python \<open>for\<close> loop whose body may raise: the first error ends the loop.\<close>

fun for_each :: "('a \<Rightarrow> 's \<Rightarrow> 's \<times> py_error option) \<Rightarrow> 'a list \<Rightarrow> 's \<Rightarrow> 's \<times> py_error option" where
  "for_each body [] s = (s, None)"
| "for_each body (x # xs) s =
     (case body x s of
        (s', None) \<Rightarrow> for_each body xs s'
      | (s', Some e) \<Rightarrow> (s', Some e))"

definition emit :: "bool \<Rightarrow> widget \<Rightarrow> confocal_gui \<Rightarrow> confocal_gui" where
  "emit b x g = (if b then g\<lparr>emitted := emitted g @ [x]\<rparr> else g)"

subsection \<open>Scanner constraints\<close>

definition apply_axis_constraints ::
  "string \<times> axis_constraints \<Rightarrow> confocal_gui \<Rightarrow> confocal_gui \<times> py_error option" where
  "apply_axis_constraints item g =
     (let axis = fst item; axis_dict = snd item;
          res_lo = max 2 (min_resolution axis_dict);
          res_hi = min (2 ^ 31 - 1) (max_resolution axis_dict)
      in case axes_control_widgets g axis of
           None \<Rightarrow> (g, Some KeyError)
         | Some ws \<Rightarrow>
             let res = setRange res_lo res_hi (res_spinbox ws);
                 mn = setRange (min_value axis_dict) (max_value axis_dict) (min_spinbox ws);
                 mx = setRange (min_value axis_dict) (max_value axis_dict) (max_spinbox ws);
                 ps = setRange (min_value axis_dict) (max_value axis_dict) (pos_spinbox ws);
                 sl = setRange (min_value axis_dict) (max_value axis_dict) (slider ws);
                 ws1 = ws\<lparr>res_spinbox := fst res, min_spinbox := fst mn, max_spinbox := fst mx,
                          pos_spinbox := fst ps, slider := fst sl\<rparr>;
                 g1 = emit (snd sl) (Slider axis) (emit (snd ps) (Pos_spinbox axis)
                        (emit (snd mx) (Max_spinbox axis) (emit (snd mn) (Min_spinbox axis)
                          (emit (snd res) (Res_spinbox axis)
                            (g\<lparr>axes_control_widgets := (axes_control_widgets g)(axis \<mapsto> ws1)\<rparr>)))))
             in case optimizer_settings_axes_widgets g1 axis of
                  None \<Rightarrow> (g1, Some KeyError)
                | Some ows \<Rightarrow>
                    let rg = setRange 0 (max_value axis_dict - min_value axis_dict)
                               (range_spinbox ows);
                        ores = setRange res_lo res_hi (optimizer_res_spinbox ows);
                        ws2 = ws1\<lparr>min_spinbox := setSuffix (axis_unit axis_dict) (fst mn),
                                  max_spinbox := setSuffix (axis_unit axis_dict) (fst mx),
                                  pos_spinbox := setSuffix (axis_unit axis_dict) (fst ps)\<rparr>;
                        ows1 = ows\<lparr>range_spinbox := setSuffix (axis_unit axis_dict) (fst rg),
                                    optimizer_res_spinbox := fst ores\<rparr>
                    in (emit (snd ores) (Optimizer_res_spinbox axis)
                          (emit (snd rg) (Range_spinbox axis)
                             (g1\<lparr>axes_control_widgets := (axes_control_widgets g1)(axis \<mapsto> ws2),
                                 optimizer_settings_axes_widgets :=
                                   (optimizer_settings_axes_widgets g1)(axis \<mapsto> ows1)\<rparr>)),
                        None))"

definition apply_scanner_constraints :: "confocal_world \<Rightarrow> confocal_world \<times> py_error option" where
  "apply_scanner_constraints w =
     (let r = for_each apply_axis_constraints (scanner_constraints (scannerlogic w)) (cgui w)
      in (w\<lparr>cgui := fst r\<rparr>, snd r))"

subsection \<open>Mirroring settings and position\<close>

definition set_resolution :: "string \<times> int \<Rightarrow> confocal_gui \<Rightarrow> confocal_gui \<times> py_error option" where
  "set_resolution item g =
     (let axis = fst item; resolution = snd item
      in case axes_control_widgets g axis of
           None \<Rightarrow> (g, Some KeyError)
         | Some ws \<Rightarrow>
             let res = setValue resolution (blockSignals True (res_spinbox ws));
                 ws' = ws\<lparr>res_spinbox := blockSignals False (fst res)\<rparr>
             in (emit (snd res) (Res_spinbox axis)
                   (g\<lparr>axes_control_widgets := (axes_control_widgets g)(axis \<mapsto> ws')\<rparr>), None))"

definition set_scan_range ::
  "string \<times> real \<times> real \<Rightarrow> confocal_gui \<Rightarrow> confocal_gui \<times> py_error option" where
  "set_scan_range item g =
     (let axis = fst item; axis_range = snd item
      in case axes_control_widgets g axis of
           None \<Rightarrow> (g, Some KeyError)
         | Some ws \<Rightarrow>
             let mn = setValue (fst axis_range) (blockSignals True (min_spinbox ws));
                 mx = setValue (snd axis_range) (blockSignals True (max_spinbox ws));
                 ws' = ws\<lparr>min_spinbox := blockSignals False (fst mn),
                          max_spinbox := blockSignals False (fst mx)\<rparr>
             in (emit (snd mx) (Max_spinbox axis) (emit (snd mn) (Min_spinbox axis)
                   (g\<lparr>axes_control_widgets := (axes_control_widgets g)(axis \<mapsto> ws')\<rparr>)), None))"

definition set_dialog_values :: "settings_dict \<Rightarrow> confocal_gui \<Rightarrow> confocal_gui" where
  "set_dialog_values settings g =
     (let g1 = (case pixel_clock_frequency settings of
                  None \<Rightarrow> g
                | Some v \<Rightarrow>
                    let r = setValue v (pixel_clock_frequency_scienSpinBox g)
                    in emit (snd r) Pixel_clock_frequency_scienSpinBox
                         (g\<lparr>pixel_clock_frequency_scienSpinBox := fst r\<rparr>))
      in case backscan_speed settings of
           None \<Rightarrow> g1
         | Some v \<Rightarrow>
             let r = setValue v (backscan_speed_scienSpinBox g1)
             in emit (snd r) Backscan_speed_scienSpinBox
                  (g1\<lparr>backscan_speed_scienSpinBox := fst r\<rparr>))"

definition scanner_settings_updated ::
  "settings_dict option \<Rightarrow> confocal_world \<Rightarrow> confocal_world \<times> py_error option" where
  "scanner_settings_updated arg w =
     (let settings = (case arg of None \<Rightarrow> scanner_settings (scannerlogic w) | Some s \<Rightarrow> s);
          g2 = set_dialog_values settings (cgui w);
          r3 = (case scan_resolution settings of
                  None \<Rightarrow> (g2, None)
                | Some rs \<Rightarrow> for_each set_resolution rs g2)
      in case snd r3 of
           Some e \<Rightarrow> (w\<lparr>cgui := fst r3\<rparr>, Some e)
         | None \<Rightarrow>
             (case scan_range settings of
                None \<Rightarrow> (w\<lparr>cgui := fst r3\<rparr>, None)
              | Some rg \<Rightarrow>
                  let r4 = for_each set_scan_range rg (fst r3)
                  in (w\<lparr>cgui := fst r4\<rparr>, snd r4)))"



subsection \<open>Scan data\<close>

text \<open>
  The loop body of \<open>scan_data_updated\<close>. Its state is the GUI together with the local
  variable \<open>key\<close>, which is unbound (\<open>None\<close>) until a two-axis frame with a \<open>scan\<close>
  entry binds it and keeps its value across iterations.
\<close>

text \<open>The key \<open>'{0},{1}'.format(*axes)\<close> of a 2D scan.\<close>

definition scan_key :: "string \<Rightarrow> string \<Rightarrow> string" where
  "scan_key a0 a1 = a0 @ '','' @ a1"

definition scan_2d_frame ::
  "string \<Rightarrow> string \<Rightarrow> scan_frame \<Rightarrow> string option \<times> confocal_gui
     \<Rightarrow> (string option \<times> confocal_gui) \<times> py_error option" where
  "scan_2d_frame a0 a1 data s =
     (let r1 = (case scan data of
                  None \<Rightarrow> (s, None)
                | Some img \<Rightarrow>
                    let key = scan_key a0 a1
                    in case scan_2d_images (snd s) key of
                         None \<Rightarrow> ((Some key, snd s), Some KeyError)
                       | Some it \<Rightarrow>
                           ((Some key,
                             (snd s)\<lparr>scan_2d_images :=
                                (scan_2d_images (snd s))(key \<mapsto> it\<lparr>item_image := img\<rparr>)\<rparr>),
                            None))
      in case snd r1 of
           Some e \<Rightarrow> r1
         | None \<Rightarrow>
             (case fst (fst r1) of
                None \<Rightarrow> (fst r1, Some UnboundLocalError)
              | Some key \<Rightarrow>
                  let g1 = snd (fst r1)
                  in case scan_2d_images g1 key of
                       None \<Rightarrow> (fst r1, Some KeyError)
                     | Some it \<Rightarrow>
                         let g2 = g1\<lparr>scan_2d_images :=
                                    (scan_2d_images g1)
                                      (key \<mapsto> it\<lparr>image_extent := Some (axes_extent data)\<rparr>)\<rparr>
                         in case scan_2d_dockwidgets g2 key of
                              None \<Rightarrow> ((Some key, g2), Some KeyError)
                            | Some colorbar \<Rightarrow>
                                ((Some key,
                                  g2\<lparr>scan_2d_dockwidgets :=
                                     (scan_2d_dockwidgets g2)
                                       (key \<mapsto> Some (''scan data'', frame_unit data))\<rparr>),
                                 None)))"

definition scan_1d_frame ::
  "string \<Rightarrow> scan_frame \<Rightarrow> string option \<times> confocal_gui
     \<Rightarrow> (string option \<times> confocal_gui) \<times> py_error option" where
  "scan_1d_frame a0 data s =
     (let r1 = (case scan data of
                  None \<Rightarrow> (snd s, None)
                | Some arr \<Rightarrow>
                    (case scan_1d_plots (snd s) a0 of
                       None \<Rightarrow> (snd s, Some KeyError)
                     | Some plot \<Rightarrow>
                         ((snd s)\<lparr>scan_1d_plots := (scan_1d_plots (snd s))(a0 \<mapsto> arr)\<rparr>, None)))
      in case snd r1 of
           Some e \<Rightarrow> ((fst s, fst r1), Some e)
         | None \<Rightarrow>
             (case scan_1d_dockwidgets (fst r1) a0 of
                None \<Rightarrow> ((fst s, fst r1), Some KeyError)
              | Some label \<Rightarrow>
                  ((fst s,
                    (fst r1)\<lparr>scan_1d_dockwidgets :=
                       (scan_1d_dockwidgets (fst r1))(a0 \<mapsto> (''scan data'', frame_unit data))\<rparr>),
                   None)))"

definition scan_frame_updated ::
  "scan_frame \<Rightarrow> string option \<times> confocal_gui
     \<Rightarrow> (string option \<times> confocal_gui) \<times> py_error option" where
  "scan_frame_updated data s =
     (case axes_names data of
        [a0, a1] \<Rightarrow> scan_2d_frame a0 a1 data s
      | [a0] \<Rightarrow> scan_1d_frame a0 data s
      | _ \<Rightarrow> (s, None))"

definition scan_data_updated ::
  "scan_frame list option \<Rightarrow> confocal_world \<Rightarrow> confocal_world \<times> py_error option" where
  "scan_data_updated arg w =
     (let frames = (case arg of None \<Rightarrow> scan_data (scannerlogic w) | Some fs \<Rightarrow> fs);
          r = for_each scan_frame_updated frames (None, cgui w)
      in (w\<lparr>cgui := snd (fst r)\<rparr>, snd r))"

text \<open>
  The display items that a list of frames addresses: the keys of the 2D images, for the
  frames with two axes, and the axes of the 1D plots, for the frames with one axis.
\<close>

definition image_keys :: "scan_frame list \<Rightarrow> string list" where
  "image_keys frames = [scan_key a0 a1. [a0, a1] \<leftarrow> map axes_names frames]"

definition plot_axes :: "scan_frame list \<Rightarrow> string list" where
  "plot_axes frames = [a0. [a0] \<leftarrow> map axes_names frames]"

subsection \<open>Keyboard\<close>

record key_event =
  event_key :: int
  event_modifiers :: int

text \<open>The body of the keyboard handler is \<open>pass\<close>; the rest is commented out.\<close>

definition move_scanner_by_keyboard_event :: "key_event \<Rightarrow> confocal_world \<Rightarrow> confocal_world" where
  "move_scanner_by_keyboard_event event w = w"

definition call_slot :: "key_event \<Rightarrow> confocal_world \<Rightarrow> slot \<Rightarrow> confocal_world" where
  "call_slot event w s =
     (case s of Move_scanner_by_keyboard_event \<Rightarrow> move_scanner_by_keyboard_event event w)"

text \<open>
  The main window forwards a key press to the slots connected to
  \<open>sigKeyboardPressed\<close>, then to the default handler of the toolkit, which changes
  nothing of the modelled state.
\<close>

definition keyPressEvent :: "key_event \<Rightarrow> confocal_world \<Rightarrow> confocal_world" where
  "keyPressEvent event w = foldl (call_slot event) w (sigKeyboardPressed (cgui w))"


section \<open>Concrete configurations\<close>

text \<open>
  A logic layer showing three histogram bins between 650 nm and 750 nm, whose state is
  the interned string of the given characters, and collaborators whose commands flip the
  state and store the histogram parameters. In the examples the floats are real numbers
  and the arithmetic is exact. They serve as concrete inputs of the example theorems
  below.
\<close>

definition example_logic :: "string \<Rightarrow> real \<Rightarrow> real \<Rightarrow> real scanning_logic" where
  "example_logic st lo hi =
     \<lparr>getState = Interned st, get_bins = 200, get_min_wavelength = 650, get_max_wavelength = 750,
      current_wavelength = 700, intern_xmin = lo, intern_xmax = hi,
      histogram_axis = [650, 700, 750], histogram = [1, 2, 3], sumhisto = [1, 1, 1]\<rparr>"

definition example_collaborators :: "real collaborators" where
  "example_collaborators =
     \<lparr>start_scanning = (\<lambda>l. l\<lparr>getState := Interned ''running''\<rparr>),
      stop_scanning = (\<lambda>l. l\<lparr>getState := Interned ''idle''\<rparr>),
      recalculate_histogram_logic =
        (\<lambda>b lo hi l. l\<lparr>get_bins := b, get_min_wavelength := lo, get_max_wavelength := hi\<rparr>),
      save_data = (\<lambda>l. l),
      get_path_for_module = (\<lambda>m. ''data/'' @ m),
      float64 = (\<lambda>x. x),
      float_add = (\<lambda>x y. x + y),
      float_sub = (\<lambda>x y. x - y),
      float_div = (\<lambda>x y. x / y)\<rparr>"

definition example_time :: struct_time where
  "example_time =
     \<lparr>tm_year = 2015, tm_mon = 3, tm_mday = 9, tm_hour = 14, tm_min = 5, tm_sec = 59\<rparr>"

text \<open>
  A confocal GUI with control widgets for the axes x and y and one 2D scan of both, on
  a scanner that moves 100 micrometres per axis.
\<close>

definition example_spinbox :: "'a \<Rightarrow> 'a \<Rightarrow> 'a \<Rightarrow> 'a spinbox" where
  "example_spinbox lo hi v =
     \<lparr>minimum = lo, maximum = hi, spin_value = v, suffix = [], signals_blocked = False\<rparr>"

definition example_axis_widgets :: axis_widgets where
  "example_axis_widgets =
     \<lparr>res_spinbox = example_spinbox 2 (2 ^ 31 - 1) 2,
      min_spinbox = example_spinbox 0 0 0,
      max_spinbox = example_spinbox 0 0 0,
      slider = example_spinbox 0 0 0,
      pos_spinbox = example_spinbox 0 0 0\<rparr>"

definition example_optimizer_widgets :: optimizer_axis_widgets where
  "example_optimizer_widgets =
     \<lparr>range_spinbox = example_spinbox 0 0 0,
      optimizer_res_spinbox = example_spinbox 2 (2 ^ 31 - 1) 2\<rparr>"

definition example_constraints :: axis_constraints where
  "example_constraints =
     \<lparr>min_resolution = 1, max_resolution = 10000, min_value = 0, max_value = 1 / 10000,
      axis_unit = ''m''\<rparr>"

definition example_settings :: settings_dict where
  "example_settings =
     \<lparr>pixel_clock_frequency = None, backscan_speed = None,
      scan_resolution = Some [(''x'', 100)], scan_range = Some [(''x'', 0, 10)]\<rparr>"

definition example_confocal_logic :: confocal_logic where
  "example_confocal_logic =
     \<lparr>scanner_settings = example_settings,
      scanner_position = [(''x'', 0), (''y'', 0)],
      scan_data = [],
      scanner_constraints = [(''x'', example_constraints), (''y'', example_constraints)]\<rparr>"

definition example_confocal :: confocal_world where
  "example_confocal =
     \<lparr>cgui =
        \<lparr>axes_control_widgets =
           [''x'' \<mapsto> example_axis_widgets, ''y'' \<mapsto> example_axis_widgets],
         optimizer_settings_axes_widgets =
           [''x'' \<mapsto> example_optimizer_widgets, ''y'' \<mapsto> example_optimizer_widgets],
         pixel_clock_frequency_scienSpinBox = example_spinbox 0 1000000 500,
         backscan_speed_scienSpinBox = example_spinbox 0 1000000 500,
         scan_2d_images =
           [''x,y'' \<mapsto> \<lparr>item_image = Array2 [[0, 0], [0, 0]], image_extent = None\<rparr>],
         scan_1d_plots = Map.empty,
         scan_2d_dockwidgets = [''x,y'' \<mapsto> None],
         scan_1d_dockwidgets = Map.empty,
         sigKeyboardPressed = [],
         emitted = []\<rparr>,
      scannerlogic = example_confocal_logic,
      logic_calls = []\<rparr>"

definition example_frame :: "string list \<Rightarrow> ndarray option \<Rightarrow> scan_frame" where
  "example_frame axes data =
     \<lparr>axes_names = axes, axes_extent = [(0, 1 / 10000), (0, 1 / 10000)], scan = data,
      frame_unit = ''c/s''\<rparr>"


section \<open>Properties of the laser scanning GUI\<close>

subsection \<open>Widget facts\<close>

lemma setValue_range [simp]:
  "minimum (fst (setValue v w)) = minimum w" "maximum (fst (setValue v w)) = maximum w"
  by (simp_all add: setValue_def Let_def)

lemma setValue_value [simp]:
  "spin_value (fst (setValue v w)) = bound (minimum w) (maximum w) v"
  by (simp add: setValue_def Let_def)

lemma setRange_fields [simp]:
  "minimum (fst (setRange lo hi w)) = lo"
  "maximum (fst (setRange lo hi w)) = hi"
  "spin_value (fst (setRange lo hi w)) = bound lo hi (spin_value w)"
  "signals_blocked (fst (setRange lo hi w)) = signals_blocked w"
  by (simp_all add: setRange_def Let_def)

lemma bound_id: "lo \<le> v \<Longrightarrow> v \<le> hi \<Longrightarrow> bound lo hi v = v"
  by (auto simp: bound_def)

subsection \<open>Start and stop\<close>

text \<open>
  What one run of the start/stop handler does is decided by the identity of the state
  object: for the interned \<open>'running'\<close> it writes \<open>Start\<close> and sends one
  \<open>stop_scanning()\<close>, for every other object it writes \<open>Stop\<close> and sends one
  \<open>start_scanning()\<close>.
\<close>

lemma start_clicked_identity:
  "(getState (logic w) = Interned ''running'' \<longrightarrow>
      start_stop_button (gui (start_clicked c w)) = ''Start'' \<and>
      calls (start_clicked c w) = calls w @ [Stop_scanning] \<and>
      logic (start_clicked c w) = stop_scanning c (logic w)) \<and>
   (getState (logic w) \<noteq> Interned ''running'' \<longrightarrow>
      start_stop_button (gui (start_clicked c w)) = ''Stop'' \<and>
      calls (start_clicked c w) = calls w @ [Start_scanning] \<and>
      logic (start_clicked c w) = start_scanning c (logic w))"
  by (simp add: start_clicked_def is_literal_def)

text \<open>
  Claim C2 asks that in state \<open>running\<close> the handler writes \<open>Start\<close> and calls
  \<open>stop_scanning()\<close> once. The handler tests \<open>is 'running'\<close> where equality is
  meant: when the logic reports a state string that reads \<open>running\<close> but is not the
  interned object, one run of the handler writes \<open>Stop\<close> and calls
  \<open>start_scanning()\<close> instead.
\<close>

theorem start_clicked_fresh_running:
  "str_chars (getState (logic (activate
      ((example_logic ''running'' 650 750)\<lparr>getState := Fresh ''running''\<rparr>)))) = ''running'' \<and>
   start_stop_button (gui (start_clicked example_collaborators (activate
      ((example_logic ''running'' 650 750)\<lparr>getState := Fresh ''running''\<rparr>)))) = ''Stop'' \<and>
   calls (start_clicked example_collaborators (activate
      ((example_logic ''running'' 650 750)\<lparr>getState := Fresh ''running''\<rparr>))) = [Start_scanning]"
  by (simp add: start_clicked_def is_literal_def activate_def example_logic_def)

subsection \<open>Saving\<close>

text \<open>
  Claim C4. One run of the save handler asks the save logic for the path of module
  \<open>LaserScanning\<close>, exports the plot as SVG to the timestamped file name under that
  path, exports it as PNG to the same name when PNG export is enabled (two image files)
  and not otherwise (one image file), and in both cases calls \<open>save_data()\<close> once,
  after the exports.
\<close>

theorem save_clicked_exports:
  "(save_PNG (gui w) \<longrightarrow>
      calls (save_clicked c now w) = calls w @
        [Get_path_for_module ''LaserScanning'',
         Export SVGExporter (get_path_for_module c ''LaserScanning'' @ strftime_laser_scan now @ ''.svg''),
         Export ImageExporter (get_path_for_module c ''LaserScanning'' @ strftime_laser_scan now @ ''.png''),
         Save_data]) \<and>
   (\<not> save_PNG (gui w) \<longrightarrow>
      calls (save_clicked c now w) = calls w @
        [Get_path_for_module ''LaserScanning'',
         Export SVGExporter (get_path_for_module c ''LaserScanning'' @ strftime_laser_scan now @ ''.svg''),
         Save_data]) \<and>
   logic (save_clicked c now w) = save_data c (logic w) \<and>
   gui (save_clicked c now w) = gui w"
  by (simp add: save_clicked_def Let_def)

theorem save_clicked_exports_witness:
  "save_PNG (gui (activate (example_logic ''idle'' 650 750))) \<and>
   calls (save_clicked example_collaborators example_time (activate (example_logic ''idle'' 650 750))) =
     [Get_path_for_module ''LaserScanning'',
      Export SVGExporter (''data/LaserScanning'' @ [CHR 0x5C] @ ''2015-03-09_laser_scan_from_14h05m59s.svg''),
      Export ImageExporter (''data/LaserScanning'' @ [CHR 0x5C] @ ''2015-03-09_laser_scan_from_14h05m59s.png''),
      Save_data] \<and>
   \<not> save_PNG (gui ((activate (example_logic ''idle'' 650 750))
        \<lparr>gui := (initUI (example_logic ''idle'' 650 750))\<lparr>save_PNG := False\<rparr>\<rparr>)) \<and>
   calls (save_clicked example_collaborators example_time
       ((activate (example_logic ''idle'' 650 750))
          \<lparr>gui := (initUI (example_logic ''idle'' 650 750))\<lparr>save_PNG := False\<rparr>\<rparr>)) =
     [Get_path_for_module ''LaserScanning'',
      Export SVGExporter (''data/LaserScanning'' @ [CHR 0x5C] @ ''2015-03-09_laser_scan_from_14h05m59s.svg''),
      Save_data]"
  using save_clicked_exports [of "activate (example_logic ''idle'' 650 750)" example_collaborators example_time]
        save_clicked_exports [of "(activate (example_logic ''idle'' 650 750))
          \<lparr>gui := (initUI (example_logic ''idle'' 650 750))\<lparr>save_PNG := False\<rparr>\<rparr>" example_collaborators example_time]
  by (simp add: activate_def initUI_def example_collaborators_def strftime_laser_scan_def
        example_time_def pad2_def pad4_def digit_def)

text \<open>The PNG flag is set on activation and no event of the module clears it.\<close>

lemma save_PNG_step: "save_PNG (gui w) \<Longrightarrow> save_PNG (gui (step c w e))"
  by (cases e)
     (simp_all add: initUI_def show_window_def update_plot_views_def updateData_def Let_def
        start_clicked_def save_clicked_def recalculate_histogram_def user_edit_def
        set_auto_range_def)

lemma save_PNG_run: "save_PNG (gui w) \<Longrightarrow> save_PNG (gui (run c w evs))"
  unfolding run_def
  by (induction evs arbitrary: w) (simp_all add: save_PNG_step)

text \<open>
  Claim C8. After activation the PNG-export flag is set, it is still set after every
  sequence of events of the module, and therefore every save in a reachable state
  writes both the SVG and the PNG file.
\<close>

theorem save_PNG_always:
  "save_PNG (gui (activate lg)) \<and>
   save_PNG (gui (run c (activate lg) evs)) \<and>
   calls (save_clicked c now (run c (activate lg) evs)) =
     calls (run c (activate lg) evs) @
       [Get_path_for_module ''LaserScanning'',
        Export SVGExporter (get_path_for_module c ''LaserScanning'' @ strftime_laser_scan now @ ''.svg''),
        Export ImageExporter (get_path_for_module c ''LaserScanning'' @ strftime_laser_scan now @ ''.png''),
        Save_data]"
proof -
  have a: "save_PNG (gui (activate lg))"
    by (simp add: activate_def initUI_def)
  then have r: "save_PNG (gui (run c (activate lg) evs))"
    by (rule save_PNG_run)
  then show ?thesis
    using a by (simp add: save_clicked_def Let_def)
qed

subsection \<open>Auto range\<close>

text \<open>
  The ranges of the two wavelength inputs are set on activation (1 to 1e6 for the
  minimum, 1 to 1e4 for the maximum) and no event changes them.
\<close>

lemma ranges_step:
  assumes "minimum (min_wavelength_display (gui w)) = 1 \<and>
           maximum (min_wavelength_display (gui w)) = 1000000 \<and>
           minimum (max_wavelength_display (gui w)) = 1 \<and>
           maximum (max_wavelength_display (gui w)) = 10000"
  shows "minimum (min_wavelength_display (gui (step c w e))) = 1 \<and>
         maximum (min_wavelength_display (gui (step c w e))) = 1000000 \<and>
         minimum (max_wavelength_display (gui (step c w e))) = 1 \<and>
         maximum (max_wavelength_display (gui (step c w e))) = 10000"
  using assms
  by (cases e)
     (simp_all add: initUI_def show_window_def update_plot_views_def updateData_def Let_def
        start_clicked_def save_clicked_def recalculate_histogram_def user_edit_def
        set_auto_range_def setValue_double_def)

lemma ranges_run:
  assumes "minimum (min_wavelength_display (gui w)) = 1 \<and>
           maximum (min_wavelength_display (gui w)) = 1000000 \<and>
           minimum (max_wavelength_display (gui w)) = 1 \<and>
           maximum (max_wavelength_display (gui w)) = 10000"
  shows "minimum (min_wavelength_display (gui (run c w evs))) = 1 \<and>
         maximum (min_wavelength_display (gui (run c w evs))) = 1000000 \<and>
         minimum (max_wavelength_display (gui (run c w evs))) = 1 \<and>
         maximum (max_wavelength_display (gui (run c w evs))) = 10000"
  using assms unfolding run_def
proof (induction evs arbitrary: w)
  case Nil
  then show ?case by simp
next
  case (Cons e evs)
  from ranges_step [OF Cons.prems] Cons.IH show ?case by simp
qed

lemma ranges_activate:
  "minimum (min_wavelength_display (gui (activate lg))) = 1 \<and>
   maximum (min_wavelength_display (gui (activate lg))) = 1000000 \<and>
   minimum (max_wavelength_display (gui (activate lg))) = 1 \<and>
   maximum (max_wavelength_display (gui (activate lg))) = 10000"
  by (simp add: activate_def initUI_def setValue_double_def)

lemma set_auto_range_values:
  "spin_value (min_wavelength_display (gui (set_auto_range c w))) =
     bound (minimum (min_wavelength_display (gui w))) (maximum (min_wavelength_display (gui w)))
       (round_decimals 6 (intern_xmin (logic w)))"
  "spin_value (max_wavelength_display (gui (set_auto_range c w))) =
     bound (minimum (max_wavelength_display (gui w))) (maximum (max_wavelength_display (gui w)))
       (round_decimals 6 (intern_xmax (logic w)))"
  "calls (set_auto_range c w) = calls w @
     [Recalculate_histogram (spin_value (bins_display (gui w)))
        (spin_value (min_wavelength_display (gui (set_auto_range c w))))
        (spin_value (max_wavelength_display (gui (set_auto_range c w))))]"
  by (simp_all add: set_auto_range_def recalculate_histogram_def Let_def setValue_double_def)

text \<open>
  Claim C3, as the code has it. In every reachable state the auto-range handler sets the
  minimum and maximum inputs to the bounds reported by the logic, rounded to six decimals
  and clamped into the range of the input (1 to 1e6, 1 to 1e4), and issues exactly one
  \<open>recalculate_histogram\<close> call, with the values the two inputs now hold. The inputs
  hold exactly the reported bounds whenever these lie in the range of the input and have
  at most six decimals.
\<close>

theorem set_auto_range_clamps:
  "spin_value (min_wavelength_display (gui (set_auto_range c (run c (activate lg) evs)))) =
     bound 1 1000000 (round_decimals 6 (intern_xmin (logic (run c (activate lg) evs)))) \<and>
   spin_value (max_wavelength_display (gui (set_auto_range c (run c (activate lg) evs)))) =
     bound 1 10000 (round_decimals 6 (intern_xmax (logic (run c (activate lg) evs)))) \<and>
   calls (set_auto_range c (run c (activate lg) evs)) = calls (run c (activate lg) evs) @
     [Recalculate_histogram (spin_value (bins_display (gui (run c (activate lg) evs))))
        (bound 1 1000000 (round_decimals 6 (intern_xmin (logic (run c (activate lg) evs)))))
        (bound 1 10000 (round_decimals 6 (intern_xmax (logic (run c (activate lg) evs)))))] \<and>
   (1 \<le> intern_xmin (logic (run c (activate lg) evs)) \<and>
    intern_xmin (logic (run c (activate lg) evs)) \<le> 1000000 \<and>
    round_decimals 6 (intern_xmin (logic (run c (activate lg) evs)))
      = intern_xmin (logic (run c (activate lg) evs)) \<longrightarrow>
    spin_value (min_wavelength_display (gui (set_auto_range c (run c (activate lg) evs))))
      = intern_xmin (logic (run c (activate lg) evs))) \<and>
   (1 \<le> intern_xmax (logic (run c (activate lg) evs)) \<and>
    intern_xmax (logic (run c (activate lg) evs)) \<le> 10000 \<and>
    round_decimals 6 (intern_xmax (logic (run c (activate lg) evs)))
      = intern_xmax (logic (run c (activate lg) evs)) \<longrightarrow>
    spin_value (max_wavelength_display (gui (set_auto_range c (run c (activate lg) evs))))
      = intern_xmax (logic (run c (activate lg) evs)))"
proof -
  let ?w = "run c (activate lg) evs"
  note r = ranges_run [OF ranges_activate, of c lg evs]
  have lo: "spin_value (min_wavelength_display (gui (set_auto_range c ?w))) =
     bound 1 1000000 (round_decimals 6 (intern_xmin (logic ?w)))"
    using r by (simp add: set_auto_range_values(1))
  have hi: "spin_value (max_wavelength_display (gui (set_auto_range c ?w))) =
     bound 1 10000 (round_decimals 6 (intern_xmax (logic ?w)))"
    using r by (simp add: set_auto_range_values(2))
  have cl: "calls (set_auto_range c ?w) = calls ?w @
     [Recalculate_histogram (spin_value (bins_display (gui ?w)))
        (bound 1 1000000 (round_decimals 6 (intern_xmin (logic ?w))))
        (bound 1 10000 (round_decimals 6 (intern_xmax (logic ?w))))]"
    using set_auto_range_values(3) [of c ?w] lo hi by simp
  show ?thesis
    using lo hi cl by (simp add: bound_id)
qed

theorem set_auto_range_clamps_witness:
  "1 \<le> intern_xmin (logic (run example_collaborators (activate (example_logic ''idle'' 650 750)) [])) \<and>
   intern_xmin (logic (run example_collaborators (activate (example_logic ''idle'' 650 750)) [])) \<le> 1000000 \<and>
   round_decimals 6 (intern_xmin (logic (run example_collaborators (activate (example_logic ''idle'' 650 750)) []))) = 650 \<and>
   1 \<le> intern_xmax (logic (run example_collaborators (activate (example_logic ''idle'' 650 750)) [])) \<and>
   intern_xmax (logic (run example_collaborators (activate (example_logic ''idle'' 650 750)) [])) \<le> 10000 \<and>
   round_decimals 6 (intern_xmax (logic (run example_collaborators (activate (example_logic ''idle'' 650 750)) []))) = 750 \<and>
   spin_value (min_wavelength_display (gui (set_auto_range example_collaborators
      (run example_collaborators (activate (example_logic ''idle'' 650 750)) [])))) = 650 \<and>
   spin_value (max_wavelength_display (gui (set_auto_range example_collaborators
      (run example_collaborators (activate (example_logic ''idle'' 650 750)) [])))) = 750 \<and>
   calls (set_auto_range example_collaborators
      (run example_collaborators (activate (example_logic ''idle'' 650 750)) []))
     = [Recalculate_histogram 200 650 750]"
  using set_auto_range_clamps [of example_collaborators "example_logic ''idle'' 650 750" "[]"]
  by (simp add: run_def activate_def example_logic_def round_decimals_def initUI_def QSpinBox_def bound_def)

text \<open>
  Claim C3 as stated, for every reported bound, fails: with reported bounds 0.5 and 20000
  the inputs hold 1 and 10000, and the recalculation is called with 1 and 10000.
\<close>

theorem set_auto_range_counterexample:
  "\<not> (spin_value (min_wavelength_display (gui (set_auto_range example_collaborators
          (activate (example_logic ''idle'' (1 / 2) 20000)))))
        = intern_xmin (logic (activate (example_logic ''idle'' (1 / 2) 20000))) \<and>
       spin_value (max_wavelength_display (gui (set_auto_range example_collaborators
          (activate (example_logic ''idle'' (1 / 2) 20000)))))
        = intern_xmax (logic (activate (example_logic ''idle'' (1 / 2) 20000))) \<and>
       calls (set_auto_range example_collaborators (activate (example_logic ''idle'' (1 / 2) 20000)))
        = [Recalculate_histogram 200 (1 / 2) 20000])"
  by (simp add: set_auto_range_def recalculate_histogram_def Let_def setValue_double_def
        activate_def initUI_def example_logic_def round_decimals_def
        QDoubleSpinBox_def bound_def setValue_def)


section \<open>Properties of the confocal GUI\<close>

subsection \<open>Signals while mirroring\<close>

lemma for_each_invariant:
  assumes "P s" and "\<And>x s. P s \<Longrightarrow> P (fst (body x s))"
  shows "P (fst (for_each body xs s))"
  using assms(1)
proof (induction xs arbitrary: s)
  case Nil
  then show ?case by simp
next
  case (Cons x xs)
  from Cons.prems have "P (fst (body x s))" by (rule assms(2))
  then show ?case
    using Cons.IH [of "fst (body x s)"]
    by (cases "body x s") (auto split: option.splits)
qed

lemma setValue_blocked [simp]: "snd (setValue v (blockSignals True w)) = False"
  by (simp add: setValue_def blockSignals_def Let_def)

lemma emit_False [simp]: "emit False x g = g"
  by (simp add: emit_def)









subsection \<open>Keyboard\<close>

lemma call_slot_noop: "call_slot event w s = w"
  by (cases s) (simp add: call_slot_def move_scanner_by_keyboard_event_def)

lemma foldl_call_slot: "foldl (call_slot event) w slots = w"
  by (induction slots) (simp_all add: call_slot_noop)

text \<open>
  Claim C7. For every keyboard event and every state, the keyboard handler returns the
  state as it was: GUI, logic layer and the calls made on the logic are unchanged. The
  same holds for a key press forwarded by the main window, whatever slots are connected.
\<close>

theorem keyboard_noop:
  "move_scanner_by_keyboard_event event w = w \<and> keyPressEvent event w = w"
  by (simp add: move_scanner_by_keyboard_event_def keyPressEvent_def foldl_call_slot)

subsection \<open>Mirrored settings\<close>

text \<open>
  A loop that updates the control widgets of one axis per item updates, for items with
  distinct axes that all have widgets, every named axis once and raises nothing.
\<close>

lemma for_each_axis_update:
  assumes body: "\<And>item g ws. axes_control_widgets g (fst item) = Some ws \<Longrightarrow>
      body item g =
        (g\<lparr>axes_control_widgets := (axes_control_widgets g)(fst item \<mapsto> upd (snd item) ws)\<rparr>, None)"
    and "distinct (map fst items)"
    and "fst ` set items \<subseteq> dom (axes_control_widgets g)"
  shows "for_each body items g =
     (g\<lparr>axes_control_widgets :=
          (\<lambda>a. case map_of items a of
                 None \<Rightarrow> axes_control_widgets g a
               | Some v \<Rightarrow> map_option (upd v) (axes_control_widgets g a))\<rparr>, None)"
  using assms(2,3)
proof (induction items arbitrary: g)
  case Nil
  then show ?case by simp
next
  case (Cons item items)
  obtain k v where item: "item = (k, v)" by (cases item)
  from Cons.prems item obtain ws where ws: "axes_control_widgets g k = Some ws" by auto
  let ?g1 = "g\<lparr>axes_control_widgets := (axes_control_widgets g)(k \<mapsto> upd v ws)\<rparr>"
  have step: "body item g = (?g1, None)"
    using body [of g item ws] ws item by simp
  have d: "distinct (map fst items)" and nk: "k \<notin> fst ` set items"
    using Cons.prems(1) item by auto
  have sub: "fst ` set items \<subseteq> dom (axes_control_widgets ?g1)"
    using Cons.prems(2) by auto
  have none: "map_of items k = None"
    using nk by (simp add: map_of_eq_None_iff)
  have eq: "(\<lambda>a. case map_of items a of
                 None \<Rightarrow> axes_control_widgets ?g1 a
               | Some v' \<Rightarrow> map_option (upd v') (axes_control_widgets ?g1 a))
          = (\<lambda>a. case map_of (item # items) a of
                 None \<Rightarrow> axes_control_widgets g a
               | Some v' \<Rightarrow> map_option (upd v') (axes_control_widgets g a))"
    using none ws item by (auto simp: fun_eq_iff split: option.splits)
  show ?case
    using step Cons.IH [OF d sub] eq by simp
qed

lemma set_resolution_body:
  "axes_control_widgets g (fst item) = Some ws \<Longrightarrow>
     set_resolution item g =
       (g\<lparr>axes_control_widgets := (axes_control_widgets g)
            (fst item \<mapsto>
               (\<lambda>v ws. ws\<lparr>res_spinbox :=
                   blockSignals False (fst (setValue v (blockSignals True (res_spinbox ws))))\<rparr>)
               (snd item) ws)\<rparr>, None)"
  by (simp add: set_resolution_def Let_def)

lemma set_scan_range_body:
  "axes_control_widgets g (fst item) = Some ws \<Longrightarrow>
     set_scan_range item g =
       (g\<lparr>axes_control_widgets := (axes_control_widgets g)
            (fst item \<mapsto>
               (\<lambda>r ws. ws\<lparr>min_spinbox :=
                   blockSignals False (fst (setValue (fst r) (blockSignals True (min_spinbox ws)))),
                 max_spinbox :=
                   blockSignals False (fst (setValue (snd r) (blockSignals True (max_spinbox ws))))\<rparr>)
               (snd item) ws)\<rparr>, None)"
  by (simp add: set_scan_range_def Let_def)

lemma axes_set_dialog_values [simp]:
  "axes_control_widgets (set_dialog_values settings g) = axes_control_widgets g"
  by (simp add: set_dialog_values_def emit_def Let_def split: option.splits)

lemma blocked_value [simp]:
  "spin_value (blockSignals b w) = spin_value w"
  "minimum (blockSignals b w) = minimum w"
  "maximum (blockSignals b w) = maximum w"
  by (simp_all add: blockSignals_def)

text \<open>
  Claim C5, as the code has it. Take a settings dictionary that gives some axis the
  resolution 100 and the range 0 to 10, and whose resolution and range entries name only
  axes that have control widgets. After the settings update the handler has not failed and
  the resolution, minimum and maximum boxes of that axis hold 100, 0 and 10 clamped into
  the range each box had before the call; they hold exactly 100, 0 and 10 when these lie
  in the ranges of the boxes.
\<close>

theorem scanner_settings_mirrored:
  assumes "scan_resolution settings = Some rs" and "scan_range settings = Some rg"
    and "distinct (map fst rs)" and "distinct (map fst rg)"
    and "fst ` set rs \<subseteq> dom (axes_control_widgets (cgui w))"
    and "fst ` set rg \<subseteq> dom (axes_control_widgets (cgui w))"
    and "(axis, 100) \<in> set rs" and "(axis, (0, 10)) \<in> set rg"
    and "axes_control_widgets (cgui w) axis = Some ws"
  shows "snd (scanner_settings_updated (Some settings) w) = None \<and>
     map_option (\<lambda>ws'. spin_value (res_spinbox ws'))
        (axes_control_widgets (cgui (fst (scanner_settings_updated (Some settings) w))) axis)
       = Some (bound (minimum (res_spinbox ws)) (maximum (res_spinbox ws)) 100) \<and>
     map_option (\<lambda>ws'. spin_value (min_spinbox ws'))
        (axes_control_widgets (cgui (fst (scanner_settings_updated (Some settings) w))) axis)
       = Some (bound (minimum (min_spinbox ws)) (maximum (min_spinbox ws)) 0) \<and>
     map_option (\<lambda>ws'. spin_value (max_spinbox ws'))
        (axes_control_widgets (cgui (fst (scanner_settings_updated (Some settings) w))) axis)
       = Some (bound (minimum (max_spinbox ws)) (maximum (max_spinbox ws)) 10) \<and>
     (minimum (res_spinbox ws) \<le> 100 \<and> 100 \<le> maximum (res_spinbox ws) \<and>
      minimum (min_spinbox ws) \<le> 0 \<and> 0 \<le> maximum (min_spinbox ws) \<and>
      minimum (max_spinbox ws) \<le> 10 \<and> 10 \<le> maximum (max_spinbox ws) \<longrightarrow>
      map_option (\<lambda>ws'. (spin_value (res_spinbox ws'), spin_value (min_spinbox ws'),
                          spin_value (max_spinbox ws')))
        (axes_control_widgets (cgui (fst (scanner_settings_updated (Some settings) w))) axis)
       = Some (100, 0, 10))"
proof -
  let ?g2 = "set_dialog_values settings (cgui w)"
  let ?ures = "\<lambda>v ws. ws\<lparr>res_spinbox :=
                   blockSignals False (fst (setValue v (blockSignals True (res_spinbox ws))))\<rparr>"
  let ?urng = "\<lambda>r ws. ws\<lparr>min_spinbox :=
                   blockSignals False (fst (setValue (fst r) (blockSignals True (min_spinbox ws)))),
                 max_spinbox :=
                   blockSignals False (fst (setValue (snd r) (blockSignals True (max_spinbox ws))))\<rparr>"
  let ?A3 = "\<lambda>a. case map_of rs a of
                 None \<Rightarrow> axes_control_widgets ?g2 a
               | Some v \<Rightarrow> map_option (?ures v) (axes_control_widgets ?g2 a)"
  let ?g3 = "?g2\<lparr>axes_control_widgets := ?A3\<rparr>"
  have r3: "for_each set_resolution rs ?g2 = (?g3, None)"
    using for_each_axis_update [of set_resolution ?ures rs ?g2, OF set_resolution_body]
      assms(3,5) by simp
  have dom3: "fst ` set rg \<subseteq> dom (axes_control_widgets ?g3)"
    using assms(6) by (auto split: option.splits)
  let ?A4 = "\<lambda>a. case map_of rg a of
                 None \<Rightarrow> axes_control_widgets ?g3 a
               | Some v \<Rightarrow> map_option (?urng v) (axes_control_widgets ?g3 a)"
  let ?g4 = "?g3\<lparr>axes_control_widgets := ?A4\<rparr>"
  have r4: "for_each set_scan_range rg ?g3 = (?g4, None)"
    using for_each_axis_update [of set_scan_range ?urng rg ?g3, OF set_scan_range_body]
      assms(4) dom3 by simp
  have res: "scanner_settings_updated (Some settings) w = (w\<lparr>cgui := ?g4\<rparr>, None)"
    using r3 r4 assms(1,2) by (simp add: scanner_settings_updated_def Let_def)
  have m1: "map_of rs axis = Some 100"
    using assms(3,7) by simp
  have m2: "map_of rg axis = Some (0, 10)"
    using assms(4,8) by simp
  have final: "axes_control_widgets ?g4 axis = Some (?urng (0, 10) (?ures 100 ws))"
    using m1 m2 assms(9) by simp
  show ?thesis
    unfolding res using final by (simp add: bound_id)
qed

theorem scanner_settings_mirrored_witness:
  "snd (scanner_settings_updated (Some example_settings)
      (example_confocal\<lparr>cgui := (cgui example_confocal)\<lparr>axes_control_widgets :=
         [''x'' \<mapsto> example_axis_widgets\<lparr>min_spinbox := example_spinbox 0 20 5,
                                          max_spinbox := example_spinbox 0 20 5\<rparr>]\<rparr>\<rparr>)) = None \<and>
   map_option (\<lambda>ws'. (spin_value (res_spinbox ws'), spin_value (min_spinbox ws'),
                       spin_value (max_spinbox ws')))
     (axes_control_widgets (cgui (fst (scanner_settings_updated (Some example_settings)
        (example_confocal\<lparr>cgui := (cgui example_confocal)\<lparr>axes_control_widgets :=
           [''x'' \<mapsto> example_axis_widgets\<lparr>min_spinbox := example_spinbox 0 20 5,
                                            max_spinbox := example_spinbox 0 20 5\<rparr>]\<rparr>\<rparr>))))
        ''x'')
     = Some (100, 0, 10)"
proof -
  let ?ws = "example_axis_widgets\<lparr>min_spinbox := example_spinbox 0 20 5,
                                  max_spinbox := example_spinbox 0 20 5\<rparr>"
  let ?w = "example_confocal\<lparr>cgui := (cgui example_confocal)\<lparr>axes_control_widgets :=
         [''x'' \<mapsto> ?ws]\<rparr>\<rparr>"
  have h1: "scan_resolution example_settings = Some [(''x'', 100)]"
    and h2: "scan_range example_settings = Some [(''x'', 0, 10)]"
    by (simp_all add: example_settings_def)
  have h3: "distinct (map fst [(''x'', 100::int)])"
    and h4: "distinct (map fst [(''x'', 0::real, 10::real)])" by simp_all
  have h5: "fst ` set [(''x'', 100::int)] \<subseteq> dom (axes_control_widgets (cgui ?w))"
    and h6: "fst ` set [(''x'', 0::real, 10::real)] \<subseteq> dom (axes_control_widgets (cgui ?w))"
    by simp_all
  have h7: "(''x'', 100::int) \<in> set [(''x'', 100)]"
    and h8: "(''x'', (0::real, 10::real)) \<in> set [(''x'', 0, 10)]" by simp_all
  have h9: "axes_control_widgets (cgui ?w) ''x'' = Some ?ws" by simp
  have rng: "minimum (res_spinbox ?ws) \<le> 100 \<and> 100 \<le> maximum (res_spinbox ?ws) \<and>
      minimum (min_spinbox ?ws) \<le> 0 \<and> 0 \<le> maximum (min_spinbox ?ws) \<and>
      minimum (max_spinbox ?ws) \<le> 10 \<and> 10 \<le> maximum (max_spinbox ?ws)"
    by (simp add: example_axis_widgets_def example_spinbox_def)
  from scanner_settings_mirrored [OF h1 h2 h3 h4 h5 h6 h7 h8 h9] rng
  show ?thesis by blast
qed

text \<open>
  Claim C5 as stated, for every such dictionary, fails: on a scanner whose constraints
  allow 0 to 100 micrometres, \<open>apply_scanner_constraints\<close> gives the range boxes the
  range 0 to 1e-4, and after the settings update the maximum box holds 1e-4, not 10.
\<close>

theorem scanner_settings_mirrored_counterexample:
  "snd (apply_scanner_constraints example_confocal) = None \<and>
   snd (scanner_settings_updated (Some example_settings)
          (fst (apply_scanner_constraints example_confocal))) = None \<and>
   map_option (\<lambda>ws'. (spin_value (res_spinbox ws'), spin_value (min_spinbox ws'),
                       spin_value (max_spinbox ws')))
     (axes_control_widgets (cgui (fst (scanner_settings_updated (Some example_settings)
        (fst (apply_scanner_constraints example_confocal))))) ''x'')
     = Some (100, 0, 1 / 10000) \<and>
   map_option (\<lambda>ws'. (spin_value (res_spinbox ws'), spin_value (min_spinbox ws'),
                       spin_value (max_spinbox ws')))
     (axes_control_widgets (cgui (fst (scanner_settings_updated (Some example_settings)
        (fst (apply_scanner_constraints example_confocal))))) ''x'')
     \<noteq> Some (100, 0, 10)"
  by (simp add: apply_scanner_constraints_def apply_axis_constraints_def
        scanner_settings_updated_def set_dialog_values_def set_resolution_def
        set_scan_range_def Let_def emit_def setSuffix_def blockSignals_def
        example_confocal_def example_confocal_logic_def example_settings_def
        example_constraints_def example_axis_widgets_def example_optimizer_widgets_def
        example_spinbox_def setRange_def setValue_def bound_def)

subsection \<open>Blocking around setValue\<close>








subsection \<open>Scan data\<close>

lemma for_each_append:
  "for_each body (xs @ ys) s =
     (case for_each body xs s of
        (s', None) \<Rightarrow> for_each body ys s'
      | (s', Some e) \<Rightarrow> (s', Some e))"
  by (induction xs arbitrary: s) (auto split: prod.splits option.splits)

lemma scan_frame_updated_unbound:
  "axes_names d = [a0, a1] \<Longrightarrow> scan d = None \<Longrightarrow>
     scan_frame_updated d (None, g) = ((None, g), Some UnboundLocalError)"
  by (simp add: scan_frame_updated_def scan_2d_frame_def)

lemma scan_frame_updated_not_2d:
  assumes "length (axes_names p) \<noteq> 2"
    and "\<forall>a. axes_names p = [a] \<longrightarrow>
           (scan p \<noteq> None \<longrightarrow> a \<in> dom (scan_1d_plots g)) \<and> a \<in> dom (scan_1d_dockwidgets g)"
  shows "\<exists>g'. scan_frame_updated p (None, g) = ((None, g'), None) \<and>
           dom (scan_1d_plots g') = dom (scan_1d_plots g) \<and>
           dom (scan_1d_dockwidgets g') = dom (scan_1d_dockwidgets g)"
proof (cases "axes_names p")
  case Nil
  then show ?thesis by (simp add: scan_frame_updated_def)
next
  case (Cons a rest)
  show ?thesis
  proof (cases rest)
    case Nil
    with Cons have ax: "axes_names p = [a]" by simp
    with assms(2) have d: "a \<in> dom (scan_1d_dockwidgets g)"
      and pl: "scan p \<noteq> None \<longrightarrow> a \<in> dom (scan_1d_plots g)" by simp_all
    show ?thesis
    proof (cases "scan p")
      case None
      with ax d show ?thesis
        by (auto simp: scan_frame_updated_def scan_1d_frame_def)
    next
      case (Some arr)
      with pl have "a \<in> dom (scan_1d_plots g)" by simp
      with ax d Some show ?thesis
        by (auto simp: scan_frame_updated_def scan_1d_frame_def)
    qed
  next
    case (Cons b rest')
    with \<open>axes_names p = a # rest\<close> assms(1) have "rest' \<noteq> []" by auto
    then obtain c rest'' where "rest' = c # rest''" by (cases rest') auto
    with Cons \<open>axes_names p = a # rest\<close> show ?thesis
      by (simp add: scan_frame_updated_def)
  qed
qed

lemma for_each_not_2d:
  assumes "\<forall>p\<in>set pre. length (axes_names p) \<noteq> 2 \<and>
             (\<forall>a. axes_names p = [a] \<longrightarrow>
                (scan p \<noteq> None \<longrightarrow> a \<in> dom (scan_1d_plots g)) \<and>
                a \<in> dom (scan_1d_dockwidgets g))"
  shows "\<exists>g'. for_each scan_frame_updated pre (None, g) = ((None, g'), None)"
  using assms
proof (induction pre arbitrary: g)
  case Nil
  then show ?case by simp
next
  case (Cons p pre)
  from Cons.prems obtain g1 where
    s: "scan_frame_updated p (None, g) = ((None, g1), None)"
    and d1: "dom (scan_1d_plots g1) = dom (scan_1d_plots g)"
    and d2: "dom (scan_1d_dockwidgets g1) = dom (scan_1d_dockwidgets g)"
    using scan_frame_updated_not_2d [of p g] by auto
  from Cons.prems d1 d2 have
    "\<forall>p\<in>set pre. length (axes_names p) \<noteq> 2 \<and>
       (\<forall>a. axes_names p = [a] \<longrightarrow>
          (scan p \<noteq> None \<longrightarrow> a \<in> dom (scan_1d_plots g1)) \<and>
          a \<in> dom (scan_1d_dockwidgets g1))"
    by simp
  from Cons.IH [OF this] s show ?case by simp
qed

text \<open>
  Claim C9, as the code has it. When a call of \<open>scan_data_updated\<close>, with the frames
  given as argument or read from the logic, meets a two-axis frame without a \<open>scan\<close>
  entry before any two-axis frame (the frames before it have another number of axes, and
  those with one axis have their plot and dock widget), the local variable \<open>key\<close> is
  still unbound and the handler fails with an unbound-variable error, whatever frames
  follow.
\<close>

theorem scan_data_updated_unbound_key:
  assumes "(case arg of None \<Rightarrow> scan_data (scannerlogic w) | Some fs \<Rightarrow> fs) = pre @ d # post"
    and "\<forall>p\<in>set pre. length (axes_names p) \<noteq> 2 \<and>
             (\<forall>a. axes_names p = [a] \<longrightarrow>
                (scan p \<noteq> None \<longrightarrow> a \<in> dom (scan_1d_plots (cgui w))) \<and>
                a \<in> dom (scan_1d_dockwidgets (cgui w)))"
    and "axes_names d = [a0, a1]"
    and "scan d = None"
  shows "snd (scan_data_updated arg w) = Some UnboundLocalError"
proof -
  from for_each_not_2d [OF assms(2)] obtain g' where
    "for_each scan_frame_updated pre (None, cgui w) = ((None, g'), None)" by blast
  then have "for_each scan_frame_updated (pre @ d # post) (None, cgui w)
      = ((None, g'), Some UnboundLocalError)"
    using scan_frame_updated_unbound [OF assms(3,4)]
    by (simp add: for_each_append)
  then show ?thesis
    using assms(1) by (simp add: scan_data_updated_def Let_def)
qed

theorem scan_data_updated_unbound_key_witness:
  "length (axes_names (example_frame [''x'', ''y'', ''z''] None)) = 3 \<and>
   axes_names (example_frame [''x'', ''y''] None) = [''x'', ''y''] \<and>
   scan (example_frame [''x'', ''y''] None) = None \<and>
   snd (scan_data_updated
         (Some [example_frame [''x'', ''y'', ''z''] None, example_frame [''x'', ''y''] None])
         example_confocal) = Some UnboundLocalError \<and>
   snd (scan_data_updated None
         (example_confocal\<lparr>scannerlogic := example_confocal_logic
            \<lparr>scan_data := [example_frame [''x'', ''y''] None,
                           example_frame [''x'', ''y''] (Some (Array2 [[1, 2], [3, 4]]))]\<rparr>\<rparr>))
     = Some UnboundLocalError"
proof -
  let ?w2 = "example_confocal\<lparr>scannerlogic := example_confocal_logic
            \<lparr>scan_data := [example_frame [''x'', ''y''] None,
                           example_frame [''x'', ''y''] (Some (Array2 [[1, 2], [3, 4]]))]\<rparr>\<rparr>"
  have g1: "(case Some [example_frame [''x'', ''y'', ''z''] None, example_frame [''x'', ''y''] None]
             of None \<Rightarrow> scan_data (scannerlogic example_confocal) | Some fs \<Rightarrow> fs)
            = [example_frame [''x'', ''y'', ''z''] None] @ example_frame [''x'', ''y''] None # []"
    by simp
  have g2: "(case None of None \<Rightarrow> scan_data (scannerlogic ?w2) | Some fs \<Rightarrow> fs)
            = [] @ example_frame [''x'', ''y''] None
                # [example_frame [''x'', ''y''] (Some (Array2 [[1, 2], [3, 4]]))]"
    by simp
  have h1: "\<forall>p\<in>set [example_frame [''x'', ''y'', ''z''] None].
      length (axes_names p) \<noteq> 2 \<and>
      (\<forall>a. axes_names p = [a] \<longrightarrow>
         (scan p \<noteq> None \<longrightarrow> a \<in> dom (scan_1d_plots (cgui example_confocal))) \<and>
         a \<in> dom (scan_1d_dockwidgets (cgui example_confocal)))"
    by (simp add: example_frame_def)
  have h1': "\<forall>p\<in>set []. length (axes_names p) \<noteq> 2 \<and>
      (\<forall>a. axes_names p = [a] \<longrightarrow>
         (scan p \<noteq> None \<longrightarrow> a \<in> dom (scan_1d_plots (cgui ?w2))) \<and>
         a \<in> dom (scan_1d_dockwidgets (cgui ?w2)))"
    by simp
  have h2: "axes_names (example_frame [''x'', ''y''] None) = [''x'', ''y'']"
    by (simp add: example_frame_def)
  have h3: "scan (example_frame [''x'', ''y''] None) = None"
    by (simp add: example_frame_def)
  have h0: "length (axes_names (example_frame [''x'', ''y'', ''z''] None)) = 3"
    by (simp add: example_frame_def)
  from scan_data_updated_unbound_key [OF g1 h1 h2 h3]
       scan_data_updated_unbound_key [OF g2 h1' h2 h3] h0 h2 h3
  show ?thesis by simp
qed

text \<open>
  Claim C9 as stated, for every two-axis frame without a \<open>scan\<close> entry, fails: after
  a two-axis frame with a \<open>scan\<close> entry in the same call, \<open>key\<close> is still bound to
  that frame's key, and the frame without \<open>scan\<close> is processed without an error.
\<close>

theorem scan_data_updated_stale_key_counterexample:
  "axes_names (example_frame [''x'', ''z''] None) = [''x'', ''z''] \<and>
   scan (example_frame [''x'', ''z''] None) = None \<and>
   snd (scan_data_updated
         (Some [example_frame [''x'', ''y''] (Some (Array2 [[1, 2], [3, 4]])),
                example_frame [''x'', ''z''] None])
         example_confocal) = None \<and>
   snd (scan_data_updated
         (Some [example_frame [''x'', ''y''] (Some (Array2 [[1, 2], [3, 4]])),
                example_frame [''x'', ''z''] None])
         example_confocal) \<noteq> Some UnboundLocalError"
  by (simp add: scan_data_updated_def scan_frame_updated_def scan_2d_frame_def Let_def
        example_frame_def example_confocal_def scan_key_def)

subsection \<open>Data updates\<close>

text \<open>
  One frame with a \<open>scan\<close> entry whose image or plot and dock widget exist is painted
  into exactly these; a list of such frames that address different items paints every
  one of them and nothing else.
\<close>

lemma image_keys_simps [simp]:
  "image_keys [] = []"
  "image_keys (d # fs) =
     (case axes_names d of [a0, a1] \<Rightarrow> [scan_key a0 a1] | _ \<Rightarrow> []) @ image_keys fs"
  by (simp_all add: image_keys_def)

lemma plot_axes_simps [simp]:
  "plot_axes [] = []"
  "plot_axes (d # fs) = (case axes_names d of [a0] \<Rightarrow> [a0] | _ \<Rightarrow> []) @ plot_axes fs"
  by (simp_all add: plot_axes_def)

lemma scan_image_overwrite [simp]:
  "it\<lparr>item_image := img, image_extent := e\<rparr> = \<lparr>item_image = img, image_extent = e\<rparr>"
  by (cases it) simp

lemma scan_frame_updated_2d:
  assumes "axes_names d = [a0, a1]" and "scan d = Some img"
    and "scan_2d_images g (scan_key a0 a1) = Some it"
    and "scan_2d_dockwidgets g (scan_key a0 a1) = Some cb"
  shows "scan_frame_updated d (k0, g) =
     ((Some (scan_key a0 a1),
       g\<lparr>scan_2d_images := (scan_2d_images g)
            (scan_key a0 a1 \<mapsto> \<lparr>item_image = img, image_extent = Some (axes_extent d)\<rparr>),
         scan_2d_dockwidgets := (scan_2d_dockwidgets g)
            (scan_key a0 a1 \<mapsto> Some (''scan data'', frame_unit d))\<rparr>), None)"
  using assms by (simp add: scan_frame_updated_def scan_2d_frame_def Let_def)

lemma scan_frame_updated_1d:
  assumes "axes_names d = [a0]" and "scan d = Some arr"
    and "scan_1d_plots g a0 = Some pl"
    and "scan_1d_dockwidgets g a0 = Some lb"
  shows "scan_frame_updated d (k0, g) =
     ((k0,
       g\<lparr>scan_1d_plots := (scan_1d_plots g)(a0 \<mapsto> arr),
         scan_1d_dockwidgets := (scan_1d_dockwidgets g)
            (a0 \<mapsto> (''scan data'', frame_unit d))\<rparr>), None)"
  using assms by (simp add: scan_frame_updated_def scan_1d_frame_def Let_def)

lemma scan_frame_updated_skip:
  assumes "length (axes_names d) \<noteq> 2" and "length (axes_names d) \<noteq> 1"
  shows "scan_frame_updated d s = (s, None)"
proof (cases "axes_names d")
  case Nil
  then show ?thesis by (simp add: scan_frame_updated_def)
next
  case (Cons a rest)
  with assms obtain b c rest' where "axes_names d = a # b # c # rest'"
    by (cases rest; cases "tl rest") auto
  then show ?thesis by (simp add: scan_frame_updated_def)
qed

lemma frame_step:
  assumes "\<forall>a0 a1. axes_names d = [a0, a1] \<longrightarrow> scan d \<noteq> None \<and>
             scan_key a0 a1 \<in> dom (scan_2d_images g) \<and>
             scan_key a0 a1 \<in> dom (scan_2d_dockwidgets g)"
    and "\<forall>a0. axes_names d = [a0] \<longrightarrow> scan d \<noteq> None \<and>
             a0 \<in> dom (scan_1d_plots g) \<and> a0 \<in> dom (scan_1d_dockwidgets g)"
  shows "\<exists>k1 g1. scan_frame_updated d (k0, g) = ((k1, g1), None) \<and>
      dom (scan_2d_images g1) = dom (scan_2d_images g) \<and>
      dom (scan_2d_dockwidgets g1) = dom (scan_2d_dockwidgets g) \<and>
      dom (scan_1d_plots g1) = dom (scan_1d_plots g) \<and>
      dom (scan_1d_dockwidgets g1) = dom (scan_1d_dockwidgets g) \<and>
      (\<forall>k. k \<notin> set (image_keys [d]) \<longrightarrow>
           scan_2d_images g1 k = scan_2d_images g k \<and>
           scan_2d_dockwidgets g1 k = scan_2d_dockwidgets g k) \<and>
      (\<forall>a. a \<notin> set (plot_axes [d]) \<longrightarrow>
           scan_1d_plots g1 a = scan_1d_plots g a \<and>
           scan_1d_dockwidgets g1 a = scan_1d_dockwidgets g a) \<and>
      (\<forall>a0 a1. axes_names d = [a0, a1] \<longrightarrow>
           scan_2d_images g1 (scan_key a0 a1) =
             map_option (\<lambda>img. \<lparr>item_image = img, image_extent = Some (axes_extent d)\<rparr>) (scan d) \<and>
           scan_2d_dockwidgets g1 (scan_key a0 a1) = Some (Some (''scan data'', frame_unit d))) \<and>
      (\<forall>a0. axes_names d = [a0] \<longrightarrow>
           scan_1d_plots g1 a0 = scan d \<and>
           scan_1d_dockwidgets g1 a0 = Some (''scan data'', frame_unit d))"
proof -
  consider (two) a0 a1 where "axes_names d = [a0, a1]"
    | (one) a0 where "axes_names d = [a0]"
    | (other) "length (axes_names d) \<noteq> 2" "length (axes_names d) \<noteq> 1"
  proof (cases "axes_names d")
    case Nil
    then show ?thesis using that(3) by simp
  next
    case (Cons a rest)
    then show ?thesis
      using that by (cases rest; cases "tl rest") auto
  qed
  then show ?thesis
  proof cases
    case two
    with assms(1) obtain img it cb where
      f: "scan d = Some img" "scan_2d_images g (scan_key a0 a1) = Some it"
      "scan_2d_dockwidgets g (scan_key a0 a1) = Some cb"
      by auto
    from scan_frame_updated_2d [OF two f, of k0] two f
    show ?thesis by auto
  next
    case one
    with assms(2) obtain arr pl lb where
      f: "scan d = Some arr" "scan_1d_plots g a0 = Some pl" "scan_1d_dockwidgets g a0 = Some lb"
      by auto
    from scan_frame_updated_1d [OF one f, of k0] one f
    show ?thesis by auto
  next
    case other
    then have ne: "\<And>a0 a1. axes_names d \<noteq> [a0, a1]" "\<And>a0. axes_names d \<noteq> [a0]"
      by auto
    from scan_frame_updated_skip [OF other, of "(k0, g)"] ne
    show ?thesis by simp
  qed
qed

lemma image_keys_Cons: "image_keys (d # fs) = image_keys [d] @ image_keys fs"
  by simp

lemma plot_axes_Cons: "plot_axes (d # fs) = plot_axes [d] @ plot_axes fs"
  by simp

lemma image_keys_single:
  "axes_names d = [a0, a1] \<Longrightarrow> image_keys [d] = [scan_key a0 a1]"
  by simp

lemma plot_axes_single: "axes_names d = [a0] \<Longrightarrow> plot_axes [d] = [a0]"
  by simp

lemma paint_frames:
  assumes "\<forall>d\<in>set frames. \<forall>a0 a1. axes_names d = [a0, a1] \<longrightarrow> scan d \<noteq> None \<and>
             scan_key a0 a1 \<in> dom (scan_2d_images g) \<and>
             scan_key a0 a1 \<in> dom (scan_2d_dockwidgets g)"
    and "\<forall>d\<in>set frames. \<forall>a0. axes_names d = [a0] \<longrightarrow> scan d \<noteq> None \<and>
             a0 \<in> dom (scan_1d_plots g) \<and> a0 \<in> dom (scan_1d_dockwidgets g)"
    and "distinct (image_keys frames)"
    and "distinct (plot_axes frames)"
  shows "snd (for_each scan_frame_updated frames (k0, g)) = None \<and>
      dom (scan_2d_images (snd (fst (for_each scan_frame_updated frames (k0, g)))))
        = dom (scan_2d_images g) \<and>
      dom (scan_2d_dockwidgets (snd (fst (for_each scan_frame_updated frames (k0, g)))))
        = dom (scan_2d_dockwidgets g) \<and>
      dom (scan_1d_plots (snd (fst (for_each scan_frame_updated frames (k0, g)))))
        = dom (scan_1d_plots g) \<and>
      dom (scan_1d_dockwidgets (snd (fst (for_each scan_frame_updated frames (k0, g)))))
        = dom (scan_1d_dockwidgets g) \<and>
      (\<forall>k. k \<notin> set (image_keys frames) \<longrightarrow>
           scan_2d_images (snd (fst (for_each scan_frame_updated frames (k0, g)))) k
             = scan_2d_images g k \<and>
           scan_2d_dockwidgets (snd (fst (for_each scan_frame_updated frames (k0, g)))) k
             = scan_2d_dockwidgets g k) \<and>
      (\<forall>a. a \<notin> set (plot_axes frames) \<longrightarrow>
           scan_1d_plots (snd (fst (for_each scan_frame_updated frames (k0, g)))) a
             = scan_1d_plots g a \<and>
           scan_1d_dockwidgets (snd (fst (for_each scan_frame_updated frames (k0, g)))) a
             = scan_1d_dockwidgets g a) \<and>
      (\<forall>d\<in>set frames. \<forall>a0 a1. axes_names d = [a0, a1] \<longrightarrow>
           scan_2d_images (snd (fst (for_each scan_frame_updated frames (k0, g)))) (scan_key a0 a1) =
             map_option (\<lambda>img. \<lparr>item_image = img, image_extent = Some (axes_extent d)\<rparr>) (scan d) \<and>
           scan_2d_dockwidgets (snd (fst (for_each scan_frame_updated frames (k0, g)))) (scan_key a0 a1)
             = Some (Some (''scan data'', frame_unit d))) \<and>
      (\<forall>d\<in>set frames. \<forall>a0. axes_names d = [a0] \<longrightarrow>
           scan_1d_plots (snd (fst (for_each scan_frame_updated frames (k0, g)))) a0 = scan d \<and>
           scan_1d_dockwidgets (snd (fst (for_each scan_frame_updated frames (k0, g)))) a0
             = Some (''scan data'', frame_unit d))"
  using assms
proof (induction frames arbitrary: k0 g)
  case Nil
  then show ?case by simp
next
  case (Cons d fs)
  have okd2: "\<forall>a0 a1. axes_names d = [a0, a1] \<longrightarrow> scan d \<noteq> None \<and>
             scan_key a0 a1 \<in> dom (scan_2d_images g) \<and>
             scan_key a0 a1 \<in> dom (scan_2d_dockwidgets g)"
    using Cons.prems(1) by simp
  have okd1: "\<forall>a0. axes_names d = [a0] \<longrightarrow> scan d \<noteq> None \<and>
             a0 \<in> dom (scan_1d_plots g) \<and> a0 \<in> dom (scan_1d_dockwidgets g)"
    using Cons.prems(2) by simp
  from frame_step [OF okd2 okd1, of k0] obtain k1 g1 where
    st: "scan_frame_updated d (k0, g) = ((k1, g1), None)"
    and dm1: "dom (scan_2d_images g1) = dom (scan_2d_images g)"
    and dm2: "dom (scan_2d_dockwidgets g1) = dom (scan_2d_dockwidgets g)"
    and dm3: "dom (scan_1d_plots g1) = dom (scan_1d_plots g)"
    and dm4: "dom (scan_1d_dockwidgets g1) = dom (scan_1d_dockwidgets g)"
    and out2: "\<forall>k. k \<notin> set (image_keys [d]) \<longrightarrow>
           scan_2d_images g1 k = scan_2d_images g k \<and>
           scan_2d_dockwidgets g1 k = scan_2d_dockwidgets g k"
    and out1: "\<forall>a. a \<notin> set (plot_axes [d]) \<longrightarrow>
           scan_1d_plots g1 a = scan_1d_plots g a \<and>
           scan_1d_dockwidgets g1 a = scan_1d_dockwidgets g a"
    and p2: "\<forall>a0 a1. axes_names d = [a0, a1] \<longrightarrow>
           scan_2d_images g1 (scan_key a0 a1) =
             map_option (\<lambda>img. \<lparr>item_image = img, image_extent = Some (axes_extent d)\<rparr>) (scan d) \<and>
           scan_2d_dockwidgets g1 (scan_key a0 a1) = Some (Some (''scan data'', frame_unit d))"
    and p1: "\<forall>a0. axes_names d = [a0] \<longrightarrow>
           scan_1d_plots g1 a0 = scan d \<and>
           scan_1d_dockwidgets g1 a0 = Some (''scan data'', frame_unit d)"
    by blast
  have ok2': "\<forall>d\<in>set fs. \<forall>a0 a1. axes_names d = [a0, a1] \<longrightarrow> scan d \<noteq> None \<and>
             scan_key a0 a1 \<in> dom (scan_2d_images g1) \<and>
             scan_key a0 a1 \<in> dom (scan_2d_dockwidgets g1)"
    using Cons.prems(1) dm1 dm2 by simp
  have ok1': "\<forall>d\<in>set fs. \<forall>a0. axes_names d = [a0] \<longrightarrow> scan d \<noteq> None \<and>
             a0 \<in> dom (scan_1d_plots g1) \<and> a0 \<in> dom (scan_1d_dockwidgets g1)"
    using Cons.prems(2) dm3 dm4 by simp
  have dist2: "distinct (image_keys fs)"
    and dj2: "set (image_keys [d]) \<inter> set (image_keys fs) = {}"
    using Cons.prems(3) unfolding image_keys_Cons [of d fs] by simp_all
  have dist1: "distinct (plot_axes fs)"
    and dj1: "set (plot_axes [d]) \<inter> set (plot_axes fs) = {}"
    using Cons.prems(4) unfolding plot_axes_Cons [of d fs] by simp_all
  let ?g' = "snd (fst (for_each scan_frame_updated fs (k1, g1)))"
  note ih = Cons.IH [OF ok2' ok1' dist2 dist1, of k1]
  note r = ih [THEN conjunct1]
  note dm1' = ih [THEN conjunct2, THEN conjunct1]
  note dm2' = ih [THEN conjunct2, THEN conjunct2, THEN conjunct1]
  note dm3' = ih [THEN conjunct2, THEN conjunct2, THEN conjunct2, THEN conjunct1]
  note dm4' = ih [THEN conjunct2, THEN conjunct2, THEN conjunct2, THEN conjunct2, THEN conjunct1]
  note out2' = ih [THEN conjunct2, THEN conjunct2, THEN conjunct2, THEN conjunct2,
                   THEN conjunct2, THEN conjunct1]
  note out1' = ih [THEN conjunct2, THEN conjunct2, THEN conjunct2, THEN conjunct2,
                   THEN conjunct2, THEN conjunct2, THEN conjunct1]
  note p2' = ih [THEN conjunct2, THEN conjunct2, THEN conjunct2, THEN conjunct2,
                 THEN conjunct2, THEN conjunct2, THEN conjunct2, THEN conjunct1]
  note p1' = ih [THEN conjunct2, THEN conjunct2, THEN conjunct2, THEN conjunct2,
                 THEN conjunct2, THEN conjunct2, THEN conjunct2, THEN conjunct2]
  have run: "for_each scan_frame_updated (d # fs) (k0, g) = for_each scan_frame_updated fs (k1, g1)"
    using st by simp
  have O2: "\<forall>k. k \<notin> set (image_keys (d # fs)) \<longrightarrow>
           scan_2d_images ?g' k = scan_2d_images g k \<and>
           scan_2d_dockwidgets ?g' k = scan_2d_dockwidgets g k"
    using out2 out2' unfolding image_keys_Cons [of d fs] by simp
  have O1: "\<forall>a. a \<notin> set (plot_axes (d # fs)) \<longrightarrow>
           scan_1d_plots ?g' a = scan_1d_plots g a \<and>
           scan_1d_dockwidgets ?g' a = scan_1d_dockwidgets g a"
    using out1 out1' unfolding plot_axes_Cons [of d fs] by simp
  have P2: "\<forall>e\<in>set (d # fs). \<forall>a0 a1. axes_names e = [a0, a1] \<longrightarrow>
           scan_2d_images ?g' (scan_key a0 a1) =
             map_option (\<lambda>img. \<lparr>item_image = img, image_extent = Some (axes_extent e)\<rparr>) (scan e) \<and>
           scan_2d_dockwidgets ?g' (scan_key a0 a1) = Some (Some (''scan data'', frame_unit e))"
  proof (intro ballI allI impI)
    fix e a0 a1
    assume e: "e \<in> set (d # fs)" and ax: "axes_names e = [a0, a1]"
    show "scan_2d_images ?g' (scan_key a0 a1) =
             map_option (\<lambda>img. \<lparr>item_image = img, image_extent = Some (axes_extent e)\<rparr>) (scan e) \<and>
           scan_2d_dockwidgets ?g' (scan_key a0 a1) = Some (Some (''scan data'', frame_unit e))"
    proof (cases "e \<in> set fs")
      case True
      from p2' [rule_format, OF True ax] show ?thesis .
    next
      case False
      with e have ed: "e = d" by simp
      then have "scan_key a0 a1 \<in> set (image_keys [d])"
        using ax by simp
      with dj2 have "scan_key a0 a1 \<notin> set (image_keys fs)" by blast
      from out2' [rule_format, OF this] p2 [rule_format, of a0 a1] ax ed
      show ?thesis by simp
    qed
  qed
  have P1: "\<forall>e\<in>set (d # fs). \<forall>a0. axes_names e = [a0] \<longrightarrow>
           scan_1d_plots ?g' a0 = scan e \<and>
           scan_1d_dockwidgets ?g' a0 = Some (''scan data'', frame_unit e)"
  proof (intro ballI allI impI)
    fix e a0
    assume e: "e \<in> set (d # fs)" and ax: "axes_names e = [a0]"
    show "scan_1d_plots ?g' a0 = scan e \<and>
           scan_1d_dockwidgets ?g' a0 = Some (''scan data'', frame_unit e)"
    proof (cases "e \<in> set fs")
      case True
      from p1' [rule_format, OF True ax] show ?thesis .
    next
      case False
      with e have ed: "e = d" by simp
      then have "a0 \<in> set (plot_axes [d])"
        using ax by simp
      with dj1 have "a0 \<notin> set (plot_axes fs)" by blast
      from out1' [rule_format, OF this] p1 [rule_format, of a0] ax ed
      show ?thesis by simp
    qed
  qed
  have D1: "dom (scan_2d_images ?g') = dom (scan_2d_images g)" using dm1 dm1' by simp
  have D2: "dom (scan_2d_dockwidgets ?g') = dom (scan_2d_dockwidgets g)" using dm2 dm2' by simp
  have D3: "dom (scan_1d_plots ?g') = dom (scan_1d_plots g)" using dm3 dm3' by simp
  have D4: "dom (scan_1d_dockwidgets ?g') = dom (scan_1d_dockwidgets g)" using dm4 dm4' by simp
  show ?case
    unfolding run
    by (intro conjI) (rule r D1 D2 D3 D4 O2 O1 P2 P1)+
qed

lemma scan_frame_updated_frame:
  "axes_control_widgets (snd (fst (scan_frame_updated d s))) = axes_control_widgets (snd s) \<and>
   emitted (snd (fst (scan_frame_updated d s))) = emitted (snd s)"
  by (simp add: scan_frame_updated_def scan_2d_frame_def scan_1d_frame_def Let_def
        split: list.splits option.splits)

lemma for_each_scan_frame:
  "axes_control_widgets (snd (fst (for_each scan_frame_updated fs s))) = axes_control_widgets (snd s) \<and>
   emitted (snd (fst (for_each scan_frame_updated fs s))) = emitted (snd s)"
  by (rule for_each_invariant
        [where P = "\<lambda>t. axes_control_widgets (snd t) = axes_control_widgets (snd s) \<and>
                        emitted (snd t) = emitted (snd s)"])
     (simp_all add: scan_frame_updated_frame)

text \<open>
  Claim C6. A data update of either GUI only reads the logic layer and repaints. In the
  laser scanning GUI \<open>updateData\<close> leaves the logic and the recorded calls unchanged
  and, when it succeeds, has set the three curves from the histogram data of the logic.
  In the confocal GUI \<open>scan_data_updated\<close> leaves the logic, the calls made on it, the
  axis control widgets and the emitted signals unchanged, whether it succeeds or fails;
  and when every frame with one or two axes carries a \<open>scan\<close> entry and addresses an
  existing plot and dock widget of its own, the handler succeeds, has painted the image
  (with its extent) or the plot of every frame, has labelled the colour bar or the plot
  axis of its dock widget with the unit of the frame, and has left every other image,
  plot and dock widget as it was.
\<close>

theorem data_updates_only_repaint:
  "logic (fst (updateData c w)) = logic w \<and>
   calls (fst (updateData c w)) = calls w \<and>
   (snd (updateData c w) = None \<longrightarrow>
      curve1 (gui (fst (updateData c w))) =
        \<lparr>xdata = histogram_axis (logic w), ydata = histogram (logic w)\<rparr> \<and>
      curve2 (gui (fst (updateData c w))) =
        \<lparr>xdata = histogram_axis (logic w), ydata = sumhisto (logic w)\<rparr> \<and>
      curve3 (gui (fst (updateData c w))) =
        \<lparr>xdata = x_axis_hz c (histogram_axis (logic w)) (get_max_wavelength (logic w))
                   (get_min_wavelength (logic w)),
         ydata = histogram (logic w)\<rparr>) \<and>
   scannerlogic (fst (scan_data_updated arg cw)) = scannerlogic cw \<and>
   logic_calls (fst (scan_data_updated arg cw)) = logic_calls cw \<and>
   axes_control_widgets (cgui (fst (scan_data_updated arg cw))) = axes_control_widgets (cgui cw) \<and>
   emitted (cgui (fst (scan_data_updated arg cw))) = emitted (cgui cw) \<and>
   ((case arg of None \<Rightarrow> scan_data (scannerlogic cw) | Some fs \<Rightarrow> fs) = frames \<and>
    (\<forall>d\<in>set frames. \<forall>a0 a1. axes_names d = [a0, a1] \<longrightarrow> scan d \<noteq> None \<and>
        scan_key a0 a1 \<in> dom (scan_2d_images (cgui cw)) \<and>
        scan_key a0 a1 \<in> dom (scan_2d_dockwidgets (cgui cw))) \<and>
    (\<forall>d\<in>set frames. \<forall>a0. axes_names d = [a0] \<longrightarrow> scan d \<noteq> None \<and>
        a0 \<in> dom (scan_1d_plots (cgui cw)) \<and> a0 \<in> dom (scan_1d_dockwidgets (cgui cw))) \<and>
    distinct (image_keys frames) \<and> distinct (plot_axes frames) \<longrightarrow>
    snd (scan_data_updated arg cw) = None \<and>
    (\<forall>d\<in>set frames. \<forall>a0 a1. axes_names d = [a0, a1] \<longrightarrow>
        scan_2d_images (cgui (fst (scan_data_updated arg cw))) (scan_key a0 a1) =
          map_option (\<lambda>img. \<lparr>item_image = img, image_extent = Some (axes_extent d)\<rparr>) (scan d) \<and>
        scan_2d_dockwidgets (cgui (fst (scan_data_updated arg cw))) (scan_key a0 a1)
          = Some (Some (''scan data'', frame_unit d))) \<and>
    (\<forall>d\<in>set frames. \<forall>a0. axes_names d = [a0] \<longrightarrow>
        scan_1d_plots (cgui (fst (scan_data_updated arg cw))) a0 = scan d \<and>
        scan_1d_dockwidgets (cgui (fst (scan_data_updated arg cw))) a0
          = Some (''scan data'', frame_unit d)) \<and>
    (\<forall>k. k \<notin> set (image_keys frames) \<longrightarrow>
        scan_2d_images (cgui (fst (scan_data_updated arg cw))) k = scan_2d_images (cgui cw) k \<and>
        scan_2d_dockwidgets (cgui (fst (scan_data_updated arg cw))) k
          = scan_2d_dockwidgets (cgui cw) k) \<and>
    (\<forall>a. a \<notin> set (plot_axes frames) \<longrightarrow>
        scan_1d_plots (cgui (fst (scan_data_updated arg cw))) a = scan_1d_plots (cgui cw) a \<and>
        scan_1d_dockwidgets (cgui (fst (scan_data_updated arg cw))) a
          = scan_1d_dockwidgets (cgui cw) a))"
proof -
  have l: "logic (fst (updateData c w)) = logic w \<and> calls (fst (updateData c w)) = calls w"
    by (simp add: updateData_def Let_def)
  have cv: "snd (updateData c w) = None \<longrightarrow>
      curve1 (gui (fst (updateData c w))) =
        \<lparr>xdata = histogram_axis (logic w), ydata = histogram (logic w)\<rparr> \<and>
      curve2 (gui (fst (updateData c w))) =
        \<lparr>xdata = histogram_axis (logic w), ydata = sumhisto (logic w)\<rparr> \<and>
      curve3 (gui (fst (updateData c w))) =
        \<lparr>xdata = x_axis_hz c (histogram_axis (logic w)) (get_max_wavelength (logic w))
                   (get_min_wavelength (logic w)),
         ydata = histogram (logic w)\<rparr>"
    by (simp add: updateData_def Let_def)
  have s: "scannerlogic (fst (scan_data_updated arg cw)) = scannerlogic cw \<and>
           logic_calls (fst (scan_data_updated arg cw)) = logic_calls cw"
    by (simp add: scan_data_updated_def Let_def)
  have f: "axes_control_widgets (cgui (fst (scan_data_updated arg cw))) = axes_control_widgets (cgui cw) \<and>
           emitted (cgui (fst (scan_data_updated arg cw))) = emitted (cgui cw)"
    using for_each_scan_frame
      [of "case arg of None \<Rightarrow> scan_data (scannerlogic cw) | Some fs \<Rightarrow> fs" "(None, cgui cw)"]
    by (simp add: scan_data_updated_def Let_def)
  have p: "(case arg of None \<Rightarrow> scan_data (scannerlogic cw) | Some fs \<Rightarrow> fs) = frames \<and>
    (\<forall>d\<in>set frames. \<forall>a0 a1. axes_names d = [a0, a1] \<longrightarrow> scan d \<noteq> None \<and>
        scan_key a0 a1 \<in> dom (scan_2d_images (cgui cw)) \<and>
        scan_key a0 a1 \<in> dom (scan_2d_dockwidgets (cgui cw))) \<and>
    (\<forall>d\<in>set frames. \<forall>a0. axes_names d = [a0] \<longrightarrow> scan d \<noteq> None \<and>
        a0 \<in> dom (scan_1d_plots (cgui cw)) \<and> a0 \<in> dom (scan_1d_dockwidgets (cgui cw))) \<and>
    distinct (image_keys frames) \<and> distinct (plot_axes frames) \<longrightarrow>
    snd (scan_data_updated arg cw) = None \<and>
    (\<forall>d\<in>set frames. \<forall>a0 a1. axes_names d = [a0, a1] \<longrightarrow>
        scan_2d_images (cgui (fst (scan_data_updated arg cw))) (scan_key a0 a1) =
          map_option (\<lambda>img. \<lparr>item_image = img, image_extent = Some (axes_extent d)\<rparr>) (scan d) \<and>
        scan_2d_dockwidgets (cgui (fst (scan_data_updated arg cw))) (scan_key a0 a1)
          = Some (Some (''scan data'', frame_unit d))) \<and>
    (\<forall>d\<in>set frames. \<forall>a0. axes_names d = [a0] \<longrightarrow>
        scan_1d_plots (cgui (fst (scan_data_updated arg cw))) a0 = scan d \<and>
        scan_1d_dockwidgets (cgui (fst (scan_data_updated arg cw))) a0
          = Some (''scan data'', frame_unit d)) \<and>
    (\<forall>k. k \<notin> set (image_keys frames) \<longrightarrow>
        scan_2d_images (cgui (fst (scan_data_updated arg cw))) k = scan_2d_images (cgui cw) k \<and>
        scan_2d_dockwidgets (cgui (fst (scan_data_updated arg cw))) k
          = scan_2d_dockwidgets (cgui cw) k) \<and>
    (\<forall>a. a \<notin> set (plot_axes frames) \<longrightarrow>
        scan_1d_plots (cgui (fst (scan_data_updated arg cw))) a = scan_1d_plots (cgui cw) a \<and>
        scan_1d_dockwidgets (cgui (fst (scan_data_updated arg cw))) a
          = scan_1d_dockwidgets (cgui cw) a)"
  proof (intro impI, elim conjE)
    assume fr: "(case arg of None \<Rightarrow> scan_data (scannerlogic cw) | Some fs \<Rightarrow> fs) = frames"
      and ok2: "\<forall>d\<in>set frames. \<forall>a0 a1. axes_names d = [a0, a1] \<longrightarrow> scan d \<noteq> None \<and>
        scan_key a0 a1 \<in> dom (scan_2d_images (cgui cw)) \<and>
        scan_key a0 a1 \<in> dom (scan_2d_dockwidgets (cgui cw))"
      and ok1: "\<forall>d\<in>set frames. \<forall>a0. axes_names d = [a0] \<longrightarrow> scan d \<noteq> None \<and>
        a0 \<in> dom (scan_1d_plots (cgui cw)) \<and> a0 \<in> dom (scan_1d_dockwidgets (cgui cw))"
      and d2: "distinct (image_keys frames)" and d1: "distinct (plot_axes frames)"
    have res: "scan_data_updated arg cw =
        (cw\<lparr>cgui := snd (fst (for_each scan_frame_updated frames (None, cgui cw)))\<rparr>,
         snd (for_each scan_frame_updated frames (None, cgui cw)))"
      using fr by (simp add: scan_data_updated_def Let_def)
    note pf = paint_frames [OF ok2 ok1 d2 d1, of None]
    show "snd (scan_data_updated arg cw) = None \<and>
    (\<forall>d\<in>set frames. \<forall>a0 a1. axes_names d = [a0, a1] \<longrightarrow>
        scan_2d_images (cgui (fst (scan_data_updated arg cw))) (scan_key a0 a1) =
          map_option (\<lambda>img. \<lparr>item_image = img, image_extent = Some (axes_extent d)\<rparr>) (scan d) \<and>
        scan_2d_dockwidgets (cgui (fst (scan_data_updated arg cw))) (scan_key a0 a1)
          = Some (Some (''scan data'', frame_unit d))) \<and>
    (\<forall>d\<in>set frames. \<forall>a0. axes_names d = [a0] \<longrightarrow>
        scan_1d_plots (cgui (fst (scan_data_updated arg cw))) a0 = scan d \<and>
        scan_1d_dockwidgets (cgui (fst (scan_data_updated arg cw))) a0
          = Some (''scan data'', frame_unit d)) \<and>
    (\<forall>k. k \<notin> set (image_keys frames) \<longrightarrow>
        scan_2d_images (cgui (fst (scan_data_updated arg cw))) k = scan_2d_images (cgui cw) k \<and>
        scan_2d_dockwidgets (cgui (fst (scan_data_updated arg cw))) k
          = scan_2d_dockwidgets (cgui cw) k) \<and>
    (\<forall>a. a \<notin> set (plot_axes frames) \<longrightarrow>
        scan_1d_plots (cgui (fst (scan_data_updated arg cw))) a = scan_1d_plots (cgui cw) a \<and>
        scan_1d_dockwidgets (cgui (fst (scan_data_updated arg cw))) a
          = scan_1d_dockwidgets (cgui cw) a)"
      unfolding res using pf by simp
  qed
  from l cv s f p show ?thesis by (intro conjI) (erule conjunct1 conjunct2 | assumption)+
qed

theorem data_updates_only_repaint_witness:
  "snd (updateData example_collaborators (activate (example_logic ''running'' 650 750))) = None \<and>
   logic (fst (updateData example_collaborators (activate (example_logic ''running'' 650 750))))
     = example_logic ''running'' 650 750 \<and>
   calls (fst (updateData example_collaborators (activate (example_logic ''running'' 650 750)))) = [] \<and>
   curve1 (gui (fst (updateData example_collaborators
       (activate (example_logic ''running'' 650 750))))) =
     \<lparr>xdata = [650, 700, 750], ydata = [1, 2, 3]\<rparr> \<and>
   curve2 (gui (fst (updateData example_collaborators
       (activate (example_logic ''running'' 650 750))))) =
     \<lparr>xdata = [650, 700, 750], ydata = [1, 1, 1]\<rparr> \<and>
   ydata (curve3 (gui (fst (updateData example_collaborators
       (activate (example_logic ''running'' 650 750)))))) = [1, 2, 3] \<and>
   snd (scan_data_updated
          (Some [example_frame [''x'', ''y''] (Some (Array2 [[1, 2], [3, 4]])),
                 example_frame [''z''] (Some (Array1 [5, 6]))])
          (example_confocal\<lparr>cgui := (cgui example_confocal)
             \<lparr>scan_1d_plots := [''z'' \<mapsto> Array1 [0, 0]],
              scan_1d_dockwidgets := [''z'' \<mapsto> (''scan data'', ''arb.u.'')]\<rparr>\<rparr>)) = None \<and>
   scan_2d_images (cgui (fst (scan_data_updated
          (Some [example_frame [''x'', ''y''] (Some (Array2 [[1, 2], [3, 4]])),
                 example_frame [''z''] (Some (Array1 [5, 6]))])
          (example_confocal\<lparr>cgui := (cgui example_confocal)
             \<lparr>scan_1d_plots := [''z'' \<mapsto> Array1 [0, 0]],
              scan_1d_dockwidgets := [''z'' \<mapsto> (''scan data'', ''arb.u.'')]\<rparr>\<rparr>)))) ''x,y''
     = Some \<lparr>item_image = Array2 [[1, 2], [3, 4]],
             image_extent = Some [(0, 1 / 10000), (0, 1 / 10000)]\<rparr> \<and>
   scan_2d_dockwidgets (cgui (fst (scan_data_updated
          (Some [example_frame [''x'', ''y''] (Some (Array2 [[1, 2], [3, 4]])),
                 example_frame [''z''] (Some (Array1 [5, 6]))])
          (example_confocal\<lparr>cgui := (cgui example_confocal)
             \<lparr>scan_1d_plots := [''z'' \<mapsto> Array1 [0, 0]],
              scan_1d_dockwidgets := [''z'' \<mapsto> (''scan data'', ''arb.u.'')]\<rparr>\<rparr>)))) ''x,y''
     = Some (Some (''scan data'', ''c/s'')) \<and>
   scan_1d_plots (cgui (fst (scan_data_updated
          (Some [example_frame [''x'', ''y''] (Some (Array2 [[1, 2], [3, 4]])),
                 example_frame [''z''] (Some (Array1 [5, 6]))])
          (example_confocal\<lparr>cgui := (cgui example_confocal)
             \<lparr>scan_1d_plots := [''z'' \<mapsto> Array1 [0, 0]],
              scan_1d_dockwidgets := [''z'' \<mapsto> (''scan data'', ''arb.u.'')]\<rparr>\<rparr>)))) ''z''
     = Some (Array1 [5, 6]) \<and>
   scan_1d_dockwidgets (cgui (fst (scan_data_updated
          (Some [example_frame [''x'', ''y''] (Some (Array2 [[1, 2], [3, 4]])),
                 example_frame [''z''] (Some (Array1 [5, 6]))])
          (example_confocal\<lparr>cgui := (cgui example_confocal)
             \<lparr>scan_1d_plots := [''z'' \<mapsto> Array1 [0, 0]],
              scan_1d_dockwidgets := [''z'' \<mapsto> (''scan data'', ''arb.u.'')]\<rparr>\<rparr>)))) ''z''
     = Some (''scan data'', ''c/s'')"
proof -
  let ?w = "activate (example_logic ''running'' 650 750)"
  let ?fs = "[example_frame [''x'', ''y''] (Some (Array2 [[1, 2], [3, 4]])),
              example_frame [''z''] (Some (Array1 [5, 6]))]"
  let ?cw = "example_confocal\<lparr>cgui := (cgui example_confocal)
             \<lparr>scan_1d_plots := [''z'' \<mapsto> Array1 [0, 0]],
              scan_1d_dockwidgets := [''z'' \<mapsto> (''scan data'', ''arb.u.'')]\<rparr>\<rparr>"
  have h0: "snd (updateData example_collaborators ?w) = None"
    by (simp add: updateData_def Let_def activate_def example_logic_def)
  have h1: "(case Some ?fs of None \<Rightarrow> scan_data (scannerlogic ?cw) | Some fs \<Rightarrow> fs) = ?fs"
    by simp
  have h2: "\<forall>d\<in>set ?fs. \<forall>a0 a1. axes_names d = [a0, a1] \<longrightarrow> scan d \<noteq> None \<and>
        scan_key a0 a1 \<in> dom (scan_2d_images (cgui ?cw)) \<and>
        scan_key a0 a1 \<in> dom (scan_2d_dockwidgets (cgui ?cw))"
    by (simp add: example_frame_def example_confocal_def scan_key_def)
  have h3: "\<forall>d\<in>set ?fs. \<forall>a0. axes_names d = [a0] \<longrightarrow> scan d \<noteq> None \<and>
        a0 \<in> dom (scan_1d_plots (cgui ?cw)) \<and> a0 \<in> dom (scan_1d_dockwidgets (cgui ?cw))"
    by (simp add: example_frame_def)
  have h4: "distinct (image_keys ?fs)" and h5: "distinct (plot_axes ?fs)"
    by (simp_all add: example_frame_def)
  have m1: "example_frame [''x'', ''y''] (Some (Array2 [[1, 2], [3, 4]])) \<in> set ?fs"
    and m2: "example_frame [''z''] (Some (Array1 [5, 6])) \<in> set ?fs" by simp_all
  have a1: "axes_names (example_frame [''x'', ''y''] (Some (Array2 [[1, 2], [3, 4]]))) = [''x'', ''y'']"
    and a2: "axes_names (example_frame [''z''] (Some (Array1 [5, 6]))) = [''z'']"
    by (simp_all add: example_frame_def)
  note t = data_updates_only_repaint [of example_collaborators ?w "Some ?fs" ?cw ?fs]
  note tl = t [THEN conjunct1]
  note tc = t [THEN conjunct2, THEN conjunct1]
  note tv = t [THEN conjunct2, THEN conjunct2, THEN conjunct1, rule_format, OF h0]
  note tp = t [THEN conjunct2, THEN conjunct2, THEN conjunct2, THEN conjunct2, THEN conjunct2,
               THEN conjunct2, THEN conjunct2, rule_format, OF conjI [OF h1 conjI [OF h2
               conjI [OF h3 conjI [OF h4 h5]]]]]
  note p0 = tp [THEN conjunct1]
  note p2 = tp [THEN conjunct2, THEN conjunct1, rule_format, OF m1 a1]
  note p1 = tp [THEN conjunct2, THEN conjunct2, THEN conjunct1, rule_format, OF m2 a2]
  from h0 tl tc tv p0 p2 p1 show ?thesis
    by (simp add: activate_def example_logic_def example_frame_def scan_key_def)
qed

end
